theory Spec2Isabelle
  imports Main
begin

section \<open>Python values, strings and exceptions\<close>

text \<open>
  A Python \<^verbatim>\<open>str\<close> is modelled as a \<open>string\<close> (its UTF-8 bytes); the command phrases
  are ASCII, and a substring test for an ASCII phrase gives the same answer on the bytes
  as on the code points.
\<close>

text \<open>Python's \<^verbatim>\<open>sub in s\<close> on strings: \<open>sub\<close> occurs in \<open>s\<close> as a contiguous run.\<close>

fun str_in :: "string \<Rightarrow> string \<Rightarrow> bool" where
  "str_in sub [] = (sub = [])"
| "str_in sub (c # cs) = (take (length sub) (c # cs) = sub \<or> str_in sub cs)"

text \<open>The bytes of the ASCII characters; every byte of another code point is above them.\<close>

definition is_ascii :: "char \<Rightarrow> bool" where
  "is_ascii c = (of_char c < (128 :: nat))"

text \<open>\<^verbatim>\<open>str.lower()\<close> on one ASCII character: a capital becomes its small letter.\<close>

definition lower_char :: "char \<Rightarrow> char" where
  "lower_char c =
     (case map_of (zip ''ABCDEFGHIJKLMNOPQRSTUVWXYZ'' ''abcdefghijklmnopqrstuvwxyz'') c of
        Some l \<Rightarrow> l
      | None \<Rightarrow> c)"

text \<open>
  What \<^verbatim>\<open>str.lower()\<close> makes of a code point outside ASCII is decided by the case
  tables of the interpreter's Unicode database: the result can be longer than the code
  point, and it can depend on the neighbours (the capital sigma at the end of a word).
  The tables are not part of the program; they are a parameter \<open>U\<close>:
  \<open>U before c after\<close> is what the non-ASCII byte \<open>c\<close> contributes to the result when
  the bytes \<open>before\<close> precede it and the bytes \<open>after\<close> follow it (the first byte of a
  code point contributes the lowered code point, its other bytes nothing).
\<close>

type_synonym case_table = "string \<Rightarrow> char \<Rightarrow> string \<Rightarrow> string"

text \<open>
  \<^verbatim>\<open>str.lower()\<close>, from left to right: an ASCII character is lowered where it stands,
  whatever is around it; the other bytes go through the tables.
\<close>

fun lower_from :: "case_table \<Rightarrow> string \<Rightarrow> string \<Rightarrow> string" where
  "lower_from U before [] = []"
| "lower_from U before (c # after) =
     (if is_ascii c then [lower_char c] else U before c after) @
     lower_from U (before @ [c]) after"

definition lower :: "case_table \<Rightarrow> string \<Rightarrow> string" where
  "lower U s = lower_from U [] s"

text \<open>
  The values a decoded JSON document can hold (\<^verbatim>\<open>response.json()\<close>), which are also the
  values the global \<^verbatim>\<open>VOICE_ID\<close> can hold. A float is its mantissa and exponent;
  only whether it is zero matters to the program.
\<close>

datatype pyval =
    PNone
  | PBool bool
  | PInt int
  | PFloat int int
  | PStr string
  | PList "pyval list"
  | PDict "(string \<times> pyval) list"

text \<open>Python's truth value of an object, as \<^verbatim>\<open>if not VOICE_ID\<close> tests it.\<close>

fun truthy :: "pyval \<Rightarrow> bool" where
  "truthy PNone = False"
| "truthy (PBool b) = b"
| "truthy (PInt i) = (i \<noteq> 0)"
| "truthy (PFloat m e) = (m \<noteq> 0)"
| "truthy (PStr s) = (s \<noteq> [])"
| "truthy (PList xs) = (xs \<noteq> [])"
| "truthy (PDict kvs) = (kvs \<noteq> [])"

text \<open>
  The exception classes the program meets, all subclasses of \<^verbatim>\<open>Exception\<close>.
  \<open>RequestException\<close> stands for the connection-level errors of the HTTP client,
  \<open>RequestsJSONDecodeError\<close> for the client's own JSON error (a subclass of both
  \<^verbatim>\<open>RequestException\<close> and \<^verbatim>\<open>json.JSONDecodeError\<close>), \<open>SrRequestError\<close> for the
  recognition library's \<^verbatim>\<open>RequestError\<close>, \<open>OtherException\<close> for any other class.
\<close>

datatype exn =
    RequestException
  | HTTPError
  | RequestsJSONDecodeError
  | JSONDecodeError
  | FileNotFoundError
  | OSError
  | TypeError
  | KeyError
  | PlaysoundException
  | UnknownValueError
  | SrRequestError
  | OtherException

text \<open>
  What a statement can raise: an \<^verbatim>\<open>Exception\<close>, or the \<^verbatim>\<open>SystemExit\<close> of
  \<^verbatim>\<open>exit()\<close>, which \<^verbatim>\<open>except Exception\<close> does not catch. Library calls raise
  only the former.
\<close>

datatype raised = Exc exn | SystemExit

fun is_RequestException :: "exn \<Rightarrow> bool" where
  "is_RequestException RequestException = True"
| "is_RequestException HTTPError = True"
| "is_RequestException RequestsJSONDecodeError = True"
| "is_RequestException _ = False"

fun is_JSONDecodeError :: "exn \<Rightarrow> bool" where
  "is_JSONDecodeError JSONDecodeError = True"
| "is_JSONDecodeError RequestsJSONDecodeError = True"
| "is_JSONDecodeError _ = False"

text \<open>\<^verbatim>\<open>key in obj\<close> for a decoded JSON value \<open>obj\<close> and a string \<open>key\<close>.\<close>

fun py_in :: "string \<Rightarrow> pyval \<Rightarrow> exn + bool" where
  "py_in key (PDict kvs) = Inr (map_of kvs key \<noteq> None)"
| "py_in key (PList xs) = Inr (List.member xs (PStr key))"
| "py_in key (PStr s) = Inr (str_in key s)"
| "py_in key _ = Inl TypeError"

text \<open>\<^verbatim>\<open>obj[key]\<close> for a decoded JSON value \<open>obj\<close> and a string \<open>key\<close>.\<close>

fun py_getitem :: "pyval \<Rightarrow> string \<Rightarrow> exn + pyval" where
  "py_getitem (PDict kvs) key =
     (case map_of kvs key of Some v \<Rightarrow> Inr v | None \<Rightarrow> Inl KeyError)"
| "py_getitem _ key = Inl TypeError"

section \<open>Observable events and the process state\<close>

type_synonym bytes = "nat list"

text \<open>A piece of a printed or formatted text: a literal, \<^verbatim>\<open>str\<close> of an exception or of a value.\<close>

datatype part = S string | E exn | V pyval

datatype event =
    Print "part list"
  | HttpGet string
  | HttpPost "part list"
  | Call_create_custom_voice
  | Call_text_to_speech string pyval
  | Call_play_audio_from_stream bytes
  | Call_use_pyttsx3 bytes
  | Call_listen
  | Call_process_command string
  | Exit

text \<open>
  The process state: the module-level global \<^verbatim>\<open>VOICE_ID\<close>, the files of the working
  directory that exist, and the events so far.
\<close>

record state =
  VOICE_ID :: pyval
  files :: "string set"
  trace :: "event list"

text \<open>A statement: it runs in a state, and returns a value or raises.\<close>

type_synonym 'a stmt = "state \<Rightarrow> (raised + 'a) \<times> state"

definition ret :: "'a \<Rightarrow> 'a stmt" where
  "ret x = (\<lambda>s. (Inr x, s))"

definition raise :: "raised \<Rightarrow> 'a stmt" where
  "raise r = (\<lambda>s. (Inl r, s))"

text \<open>Sequencing: the second statement runs only if the first did not raise.\<close>

definition bnd :: "'a stmt \<Rightarrow> ('a \<Rightarrow> 'b stmt) \<Rightarrow> 'b stmt" where
  "bnd m f = (\<lambda>s. case m s of (Inl r, s') \<Rightarrow> (Inl r, s') | (Inr x, s') \<Rightarrow> f x s')"

text \<open>\<^verbatim>\<open>try: body  except ...: handler\<close>; the handler re-raises what no clause catches.\<close>

definition try_except :: "'a stmt \<Rightarrow> (raised \<Rightarrow> 'a stmt) \<Rightarrow> 'a stmt" where
  "try_except body handler =
     (\<lambda>s. case body s of (Inl r, s') \<Rightarrow> handler r s' | (Inr x, s') \<Rightarrow> (Inr x, s'))"

definition emit :: "event \<Rightarrow> unit stmt" where
  "emit ev = (\<lambda>s. (Inr (), s\<lparr>trace := trace s @ [ev]\<rparr>))"

text \<open>A library call whose outcome the environment decides: it returns or raises.\<close>

definition lib_call :: "exn option \<Rightarrow> unit stmt" where
  "lib_call outcome = (case outcome of None \<Rightarrow> ret () | Some e \<Rightarrow> raise (Exc e))"

definition lib_result :: "exn + 'a \<Rightarrow> 'a stmt" where
  "lib_result outcome = (case outcome of Inl e \<Rightarrow> raise (Exc e) | Inr x \<Rightarrow> ret x)"

text \<open>
  \<^verbatim>\<open>with enter as f: body\<close>: the exit of the context manager (closing the file) runs
  whether the body raised or not, and what it raises replaces what the body raised.
\<close>

definition with_block :: "unit stmt \<Rightarrow> 'a stmt \<Rightarrow> exn option \<Rightarrow> 'a stmt" where
  "with_block enter body exit_outcome =
     bnd enter (\<lambda>_. \<lambda>s.
       case body s of (r, s') \<Rightarrow>
         (case exit_outcome of Some e \<Rightarrow> (Inl (Exc e), s') | None \<Rightarrow> (r, s')))"

text \<open>\<^verbatim>\<open>exit()\<close>: raises \<^verbatim>\<open>SystemExit\<close>.\<close>

definition py_exit :: "'a stmt" where
  "py_exit = (\<lambda>s. (Inl SystemExit, s\<lparr>trace := trace s @ [Exit]\<rparr>))"

section \<open>HTTP responses\<close>

record response =
  status_code :: nat
  content :: "exn + bytes"
  json_body :: "exn + pyval"

text \<open>\<^verbatim>\<open>response.raise_for_status()\<close>: \<^verbatim>\<open>HTTPError\<close> for a 4xx or 5xx status.\<close>

definition raise_for_status :: "response \<Rightarrow> unit stmt" where
  "raise_for_status r =
     (if 400 \<le> status_code r \<and> status_code r < 600 then raise (Exc HTTPError) else ret ())"

section \<open>Audio player\<close>

text \<open>The outcomes of the library calls of \<^verbatim>\<open>use_pyttsx3\<close>, in the order of the calls.\<close>

record pyttsx3_env =
  fb_init :: "exn option"
  fb_save_to_file :: "exn option"
  fb_runAndWait :: "exn option"
  fb_open :: "exn option"
  fb_write :: "exn option"
  fb_remove :: "exn option"
  fb_close :: "exn option"

definition use_pyttsx3 :: "pyttsx3_env \<Rightarrow> bytes \<Rightarrow> unit stmt" where
  "use_pyttsx3 env audio_stream =
     bnd (emit (Call_use_pyttsx3 audio_stream)) (\<lambda>_.
     try_except
       (bnd (lib_call (fb_init env)) (\<lambda>_.
        bnd (lib_call (fb_save_to_file env)) (\<lambda>_.
        bnd (lib_call (fb_runAndWait env)) (\<lambda>_.
        with_block
          (bnd (lib_call (fb_open env)) (\<lambda>_.
             (\<lambda>s. (Inr (), s\<lparr>files := insert ''alternative_tts.mp3'' (files s)\<rparr>))))
          (bnd (lib_call (fb_write env)) (\<lambda>_.
           bnd (lib_call (fb_remove env)) (\<lambda>_.
             (\<lambda>s. (Inr (), s\<lparr>files := files s - {''alternative_tts.mp3''}\<rparr>)))))
          (fb_close env)))))
       (\<lambda>r. case r of
          Exc e \<Rightarrow> emit (Print [S ''Error playing audio with pyttsx3: '', E e])
        | SystemExit \<Rightarrow> raise SystemExit))"

text \<open>
  The outcomes of the library calls of \<^verbatim>\<open>play_audio_from_stream\<close>: creating the
  temporary file, writing, flushing, \<^verbatim>\<open>playsound\<close>, and closing the temporary file.
\<close>

record play_env =
  pl_tempfile :: "exn option"
  pl_write :: "exn option"
  pl_flush :: "exn option"
  pl_playsound :: "exn option"
  pl_close :: "exn option"
  pl_fallback :: pyttsx3_env

text \<open>The body of the \<^verbatim>\<open>try\<close> of \<^verbatim>\<open>play_audio_from_stream\<close>: the primary playback.\<close>

definition primary_playback :: "play_env \<Rightarrow> unit stmt" where
  "primary_playback env =
     with_block
       (lib_call (pl_tempfile env))
       (bnd (lib_call (pl_write env)) (\<lambda>_.
        bnd (lib_call (pl_flush env)) (\<lambda>_.
        lib_call (pl_playsound env))))
       (pl_close env)"

definition play_audio_from_stream :: "play_env \<Rightarrow> bytes \<Rightarrow> unit stmt" where
  "play_audio_from_stream env audio_stream =
     bnd (emit (Call_play_audio_from_stream audio_stream)) (\<lambda>_.
     try_except
       (primary_playback env)
       (\<lambda>r. case r of
          Exc e \<Rightarrow>
            (if e = PlaysoundException then
               bnd (emit (Print [S ''Error playing audio with playsound: '', E e])) (\<lambda>_.
               use_pyttsx3 (pl_fallback env) audio_stream)
             else emit (Print [S ''An unexpected error occurred during audio playback: '', E e]))
        | SystemExit \<Rightarrow> raise SystemExit))"

section \<open>Speech synthesizer\<close>

text \<open>The outcomes of one call of \<^verbatim>\<open>text_to_speech\<close>: the POST and the playback.\<close>

record tts_env =
  tts_post :: "exn + response"
  tts_play :: play_env

definition text_to_speech :: "tts_env \<Rightarrow> string \<Rightarrow> pyval \<Rightarrow> unit stmt" where
  "text_to_speech env text voice_id =
     bnd (emit (Call_text_to_speech text voice_id)) (\<lambda>_.
     if voice_id = PNone then emit (Print [S ''Error: No voice ID provided.''])
     else
       try_except
         (bnd (emit (HttpPost [S ''https://api.elevenlabs.io/v1/text-to-speech/'', V voice_id])) (\<lambda>_.
          bnd (lib_result (tts_post env)) (\<lambda>response.
          bnd (raise_for_status response) (\<lambda>_.
          bnd (lib_result (content response)) (\<lambda>audio.
          play_audio_from_stream (tts_play env) audio)))))
         (\<lambda>r. case r of
            Exc e \<Rightarrow>
              (if is_RequestException e then emit (Print [S ''Error during TTS request: '', E e])
               else emit (Print [S ''An unexpected error occurred during TTS: '', E e]))
          | SystemExit \<Rightarrow> raise SystemExit))"

section \<open>Speech recognizer\<close>

text \<open>
  The outcomes of one call of \<^verbatim>\<open>listen\<close>: opening the microphone, capturing the
  utterance (calibration and recording), and the remote recognition; and the case tables
  \<^verbatim>\<open>str.lower()\<close> uses.
\<close>

record listen_env =
  ls_microphone :: "exn option"
  ls_capture :: "exn option"
  ls_mic_close :: "exn option"
  ls_recognize :: "exn + string"
  ls_case_table :: case_table

definition listen :: "listen_env \<Rightarrow> string stmt" where
  "listen env =
     bnd (emit Call_listen) (\<lambda>_.
     bnd (with_block
            (lib_call (ls_microphone env))
            (bnd (emit (Print [S ''Listening...''])) (\<lambda>_. lib_call (ls_capture env)))
            (ls_mic_close env)) (\<lambda>_.
     try_except
       (bnd (emit (Print [S ''Recognizing...''])) (\<lambda>_.
        bnd (lib_result (ls_recognize env)) (\<lambda>query.
        bnd (emit (Print [S ''User said: '', S query, S [CHR 0x0A]])) (\<lambda>_.
        ret (lower (ls_case_table env) query)))))
       (\<lambda>r. case r of
          Exc e \<Rightarrow>
            (if e = UnknownValueError then
               bnd (emit (Print [S ''Sorry, I could not understand.''])) (\<lambda>_. ret [])
             else if e = SrRequestError then
               bnd (emit (Print [S ''Could not request results from Google Speech Recognition service; '', E e]))
                 (\<lambda>_. ret [])
             else raise (Exc e))
        | SystemExit \<Rightarrow> raise SystemExit)))"

section \<open>Command dispatcher\<close>

text \<open>The local time \<^verbatim>\<open>datetime.datetime.now()\<close> returns: the fields the program formats.\<close>

record datetime =
  hour :: nat
  minute :: nat


text \<open>A number as two decimal digits, zero-padded (\<^verbatim>\<open>%I\<close> and \<^verbatim>\<open>%M\<close> print so).\<close>

definition two_digits :: "nat \<Rightarrow> string" where
  "two_digits n = [''0123456789'' ! (n div 10 mod 10), ''0123456789'' ! (n mod 10)]"

text \<open>\<^verbatim>\<open>now.strftime('%I:%M %p')\<close>: the hour on the 12-hour clock, the minute, AM or PM.\<close>

definition strftime_I_M_p :: "datetime \<Rightarrow> string" where
  "strftime_I_M_p d =
     two_digits (if hour d mod 12 = 0 then 12 else hour d mod 12) @ '':'' @
     two_digits (minute d) @ '' '' @ (if hour d < 12 then ''AM'' else ''PM'')"

record cmd_env =
  cmd_now :: datetime
  cmd_tts :: tts_env

definition process_command :: "cmd_env \<Rightarrow> string \<Rightarrow> bool stmt" where
  "process_command env query =
     bnd (emit (Call_process_command query)) (\<lambda>_.
     if str_in ''hello'' query then
       bnd (\<lambda>s. text_to_speech (cmd_tts env) ''Hello! How can I help you?'' (VOICE_ID s) s) (\<lambda>_.
       ret False)
     else if str_in ''what is the time'' query then
       bnd (\<lambda>s. text_to_speech (cmd_tts env)
                  (''The time is '' @ strftime_I_M_p (cmd_now env)) (VOICE_ID s) s) (\<lambda>_.
       ret False)
     else if str_in ''exit'' query \<or> str_in ''quit'' query \<or> str_in ''stop'' query then
       bnd (\<lambda>s. text_to_speech (cmd_tts env) ''Goodbye!'' (VOICE_ID s) s) (\<lambda>_.
       ret True)
     else
       bnd (\<lambda>s. text_to_speech (cmd_tts env)
                  (''I'' @ [CHR 0x27] @ ''m sorry, I don'' @ [CHR 0x27] @ ''t understand that yet.'')
                  (VOICE_ID s) s) (\<lambda>_.
       ret False))"

section \<open>Voice provisioner\<close>

definition IPFS_VOICE_URL :: string where
  "IPFS_VOICE_URL = ''https://ipfs.io/ipfs/bafybeiczarcv4ccnfnba73i5pj3s3oe726sotl5ybmqnnmtx4ah7h4djri''"

text \<open>
  The outcomes of the library calls of \<^verbatim>\<open>create_custom_voice\<close>: the download, writing
  the sample file (open, write, close), opening it for the upload, the upload, and
  \<^verbatim>\<open>os.remove\<close>.
\<close>

record prov_env =
  pv_get :: "exn + response"
  pv_open_w :: "exn option"
  pv_write :: "exn option"
  pv_close_w :: "exn option"
  pv_open_r :: "exn option"
  pv_post :: "exn + response"
  pv_remove :: "exn option"

text \<open>The body of the \<^verbatim>\<open>try\<close> of \<^verbatim>\<open>create_custom_voice\<close>, up to \<^verbatim>\<open>return VOICE_ID\<close>.\<close>

definition create_custom_voice_try :: "prov_env \<Rightarrow> pyval stmt" where
  "create_custom_voice_try env =
     bnd (emit (HttpGet IPFS_VOICE_URL)) (\<lambda>_.
     bnd (lib_result (pv_get env)) (\<lambda>response.
     bnd (raise_for_status response) (\<lambda>_.
     bnd (with_block
            (bnd (lib_call (pv_open_w env)) (\<lambda>_.
               (\<lambda>s. (Inr (), s\<lparr>files := insert ''voice_sample.mp3'' (files s)\<rparr>))))
            (bnd (lib_result (content response)) (\<lambda>_. lib_call (pv_write env)))
            (pv_close_w env)) (\<lambda>_.
     bnd (lib_call (pv_open_r env)) (\<lambda>_.
     bnd (emit (HttpPost [S ''https://api.elevenlabs.io/v1/voices/add''])) (\<lambda>_.
     bnd (lib_result (pv_post env)) (\<lambda>response.
     bnd (raise_for_status response) (\<lambda>_.
     bnd (lib_result (json_body response)) (\<lambda>voice_data.
     bnd (lib_result (py_in ''voice_id'' voice_data)) (\<lambda>present.
     bnd (if present then
            bnd (lib_result (py_getitem voice_data ''voice_id'')) (\<lambda>v.
            bnd (\<lambda>s. (Inr (), s\<lparr>VOICE_ID := v\<rparr>)) (\<lambda>_.
            (\<lambda>s. emit (Print [S ''Custom voice created with ID: '', V (VOICE_ID s)]) s)))
          else
            bnd (emit (Print [S ''Error creating voice: '', V voice_data])) (\<lambda>_. py_exit)) (\<lambda>_.
     bnd (lib_call (pv_remove env)) (\<lambda>_.
     bnd (\<lambda>s. (Inr (), s\<lparr>files := files s - {''voice_sample.mp3''}\<rparr>)) (\<lambda>_.
     (\<lambda>s. ret (VOICE_ID s) s))))))))))))))"

text \<open>
  The \<^verbatim>\<open>except\<close> clauses of \<^verbatim>\<open>create_custom_voice\<close>, in the source's order, each
  followed by the final \<^verbatim>\<open>return None\<close>.
\<close>

definition create_custom_voice_except :: "raised \<Rightarrow> pyval stmt" where
  "create_custom_voice_except r =
     (case r of
        Exc e \<Rightarrow>
          bnd (if is_RequestException e then emit (Print [S ''Error during request: '', E e])
               else if e = FileNotFoundError then
                 emit (Print [S ''Error: voice_sample.mp3 not found.''])
               else if is_JSONDecodeError e then
                 emit (Print [S ''Error: Invalid JSON response from ElevenLabs API.''])
               else emit (Print [S ''An unexpected error occurred: '', E e])) (\<lambda>_.
          ret PNone)
      | SystemExit \<Rightarrow> raise SystemExit)"

definition create_custom_voice :: "prov_env \<Rightarrow> pyval stmt" where
  "create_custom_voice env =
     bnd (emit Call_create_custom_voice) (\<lambda>_.
     try_except (create_custom_voice_try env) create_custom_voice_except)"

section \<open>Main execution\<close>

text \<open>The outcomes of one turn of the main loop.\<close>

record iteration =
  it_listen :: listen_env
  it_cmd :: cmd_env

text \<open>
  What the process finds at start: the environment variable \<^verbatim>\<open>ELEVENLABS_API_KEY\<close>,
  the files of the working directory, and the outcomes of the provisioning and of the
  greeting.
\<close>

record world =
  w_api_key :: "string option"
  w_files :: "string set"
  w_prov :: prov_env
  w_greeting :: tts_env

text \<open>
  How far the process got on the turns given: the loop still runs (\<open>Running\<close>), it left
  the loop by \<^verbatim>\<open>break\<close> (\<open>Finished\<close>), \<^verbatim>\<open>exit()\<close> ended it (\<open>Exited\<close>), or an
  exception no handler caught ended it (\<open>Crashed\<close>).
\<close>

datatype status = Running | Finished | Exited | Crashed exn

fun stopped :: "raised \<Rightarrow> status" where
  "stopped (Exc e) = Crashed e"
| "stopped SystemExit = Exited"

text \<open>The \<^verbatim>\<open>while True\<close> loop, on the turns the list gives.\<close>

fun main_loop :: "iteration list \<Rightarrow> state \<Rightarrow> status \<times> state" where
  "main_loop [] s = (Running, s)"
| "main_loop (it # its) s =
     (case listen (it_listen it) s of
        (Inl r, s1) \<Rightarrow> (stopped r, s1)
      | (Inr command, s1) \<Rightarrow>
          (if command \<noteq> [] then
             (case process_command (it_cmd it) command s1 of
                (Inl r, s2) \<Rightarrow> (stopped r, s2)
              | (Inr should_exit, s2) \<Rightarrow>
                  (if should_exit then (Finished, s2) else main_loop its s2))
           else main_loop its s1))"

text \<open>The module-level check of the API key.\<close>

definition check_api_key :: "string option \<Rightarrow> unit stmt" where
  "check_api_key key =
     (if key = None \<or> key = Some [] then
        bnd (emit (Print [S ''Error: ElevenLabs API key not found in environment variables.''])) (\<lambda>_.
        py_exit)
      else ret ())"

text \<open>Step 1 of the main block: the one-time voice creation.\<close>

definition provision :: "world \<Rightarrow> unit stmt" where
  "provision w =
     (\<lambda>s. if \<not> truthy (VOICE_ID s) then
            bnd (create_custom_voice (w_prov w)) (\<lambda>v.
            bnd (\<lambda>s. (Inr (), s\<lparr>VOICE_ID := v\<rparr>)) (\<lambda>_.
            (\<lambda>s. if \<not> truthy (VOICE_ID s) then
                   bnd (emit (Print [S ''Failed to create custom voice. Exiting.''])) (\<lambda>_.
                   py_exit) s
                 else ret () s))) s
          else ret () s)"

definition initial_state :: "world \<Rightarrow> state" where
  "initial_state w = \<lparr>VOICE_ID = PNone, files = w_files w, trace = []\<rparr>"

definition startup :: "world \<Rightarrow> unit stmt" where
  "startup w =
     bnd (check_api_key (w_api_key w)) (\<lambda>_.
     bnd (provision w) (\<lambda>_.
     (\<lambda>s. text_to_speech (w_greeting w)
            ''Hello, I am your custom voice assistant. How can I help you today?''
            (VOICE_ID s) s)))"

definition program :: "world \<Rightarrow> iteration list \<Rightarrow> status \<times> state" where
  "program w its =
     (case startup w (initial_state w) of
        (Inl r, s) \<Rightarrow> (stopped r, s)
      | (Inr _, s) \<Rightarrow> main_loop its s)"

section \<open>Projections of a trace\<close>

text \<open>The synthesis calls of a trace: the text and the voice identifier of each.\<close>

fun spoken :: "event list \<Rightarrow> (string \<times> pyval) list" where
  "spoken [] = []"
| "spoken (Call_text_to_speech t v # evs) = (t, v) # spoken evs"
| "spoken (_ # evs) = spoken evs"

text \<open>The utterances handed to the dispatcher.\<close>

fun dispatched :: "event list \<Rightarrow> string list" where
  "dispatched [] = []"
| "dispatched (Call_process_command q # evs) = q # dispatched evs"
| "dispatched (_ # evs) = dispatched evs"

text \<open>The network requests of a trace.\<close>

fun is_request :: "event \<Rightarrow> bool" where
  "is_request (HttpGet _) = True"
| "is_request (HttpPost _) = True"
| "is_request _ = False"

text \<open>The calls of the fallback player in a trace.\<close>

fun is_fallback :: "event \<Rightarrow> bool" where
  "is_fallback (Call_use_pyttsx3 _) = True"
| "is_fallback _ = False"

section \<open>Where events can occur\<close>

text \<open>The events \<^verbatim>\<open>use_pyttsx3\<close> and \<^verbatim>\<open>listen\<close> produce after their entry: printing only.\<close>

fun is_print :: "event \<Rightarrow> bool" where
  "is_print (Print _) = True"
| "is_print _ = False"

text \<open>The events inside \<^verbatim>\<open>play_audio_from_stream\<close>.\<close>

fun in_play :: "event \<Rightarrow> bool" where
  "in_play (Print _) = True"
| "in_play (Call_use_pyttsx3 _) = True"
| "in_play _ = False"

text \<open>The events inside \<^verbatim>\<open>text_to_speech\<close>.\<close>

fun in_tts :: "event \<Rightarrow> bool" where
  "in_tts (Print _) = True"
| "in_tts (HttpPost _) = True"
| "in_tts (Call_play_audio_from_stream _) = True"
| "in_tts (Call_use_pyttsx3 _) = True"
| "in_tts _ = False"

text \<open>The events of the start of the process, before the greeting.\<close>

fun in_prov :: "event \<Rightarrow> bool" where
  "in_prov (Print _) = True"
| "in_prov (HttpGet _) = True"
| "in_prov (HttpPost _) = True"
| "in_prov Call_create_custom_voice = True"
| "in_prov Exit = True"
| "in_prov _ = False"

text \<open>A statement only adds events of a given kind to the trace.\<close>

definition emits_only :: "(event \<Rightarrow> bool) \<Rightarrow> 'a stmt \<Rightarrow> bool" where
  "emits_only P m = (\<forall>s. \<exists>evs. trace (snd (m s)) = trace s @ evs \<and> list_all P evs)"

section \<open>Sample environments\<close>

text \<open>Every library call of the fallback player succeeds.\<close>

definition quiet_fallback :: pyttsx3_env where
  "quiet_fallback = \<lparr>fb_init = None, fb_save_to_file = None, fb_runAndWait = None,
     fb_open = None, fb_write = None, fb_remove = None, fb_close = None\<rparr>"

text \<open>Every library call of the primary playback succeeds.\<close>

definition quiet_play :: play_env where
  "quiet_play = \<lparr>pl_tempfile = None, pl_write = None, pl_flush = None, pl_playsound = None,
     pl_close = None, pl_fallback = quiet_fallback\<rparr>"

text \<open>\<^verbatim>\<open>playsound\<close> raises its own exception; everything else succeeds.\<close>

definition failing_play :: play_env where
  "failing_play = quiet_play\<lparr>pl_playsound := Some PlaysoundException\<rparr>"

text \<open>A state after a successful provisioning, with an empty trace.\<close>

definition state0 :: state where
  "state0 = \<lparr>VOICE_ID = PStr ''voice-1'', files = {}, trace = []\<rparr>"

text \<open>The synthesis endpoint answers 200 with some audio bytes.\<close>

definition ok_response :: response where
  "ok_response = \<lparr>status_code = 200, content = Inr [73, 68, 51], json_body = Inl JSONDecodeError\<rparr>"

definition quiet_tts :: tts_env where
  "quiet_tts = \<lparr>tts_post = Inr ok_response, tts_play = quiet_play\<rparr>"

text \<open>The synthesis endpoint answers 500.\<close>

definition failing_tts :: tts_env where
  "failing_tts = \<lparr>tts_post = Inr (ok_response\<lparr>status_code := 500\<rparr>), tts_play = quiet_play\<rparr>"

text \<open>A dispatcher call at 15:07 local time, with a working synthesis endpoint.\<close>

definition quiet_cmd :: cmd_env where
  "quiet_cmd = \<lparr>cmd_now = \<lparr>hour = 15, minute = 7\<rparr>, cmd_tts = quiet_tts\<rparr>"

text \<open>
  Case tables that know one capital outside ASCII: the E with an acute accent (U+00C9,
  the bytes C3 89), lowered to U+00E9 (the bytes C3 A9). Every other non-ASCII byte stays.
\<close>

definition sample_table :: case_table where
  "sample_table before c after =
     (if c = CHR 0xC3 \<and> take 1 after = [CHR 0x89] then [CHR 0xC3, CHR 0xA9]
      else if c = CHR 0x89 \<and> before \<noteq> [] \<and> last before = CHR 0xC3 then []
      else [c])"

text \<open>The microphone works and the recognition service returns the given transcript.\<close>

definition hearing :: "string \<Rightarrow> listen_env" where
  "hearing t = \<lparr>ls_microphone = None, ls_capture = None, ls_mic_close = None,
     ls_recognize = Inr t, ls_case_table = sample_table\<rparr>"

section \<open>The time format as a pattern\<close>





text \<open>The download succeeds and the voice-creation endpoint answers 500.\<close>

definition upload_rejected :: prov_env where
  "upload_rejected = \<lparr>pv_get = Inr ok_response, pv_open_w = None, pv_write = None,
     pv_close_w = None, pv_open_r = None,
     pv_post = Inr (ok_response\<lparr>status_code := 500\<rparr>), pv_remove = None\<rparr>"

text \<open>The download succeeds and the voice-creation endpoint answers 200 with the given JSON.\<close>

definition upload_accepted :: "pyval \<Rightarrow> prov_env" where
  "upload_accepted voice_data = \<lparr>pv_get = Inr ok_response, pv_open_w = None, pv_write = None,
     pv_close_w = None, pv_open_r = None,
     pv_post = Inr (ok_response\<lparr>json_body := Inr voice_data\<rparr>), pv_remove = None\<rparr>"

text \<open>The state of a process that has just started in an empty working directory.\<close>

definition fresh :: state where
  "fresh = \<lparr>VOICE_ID = PNone, files = {}, trace = []\<rparr>"

section \<open>What the main block guarantees\<close>

text \<open>A synthesis call whose voice identifier is set: true as a condition, so not \<^verbatim>\<open>None\<close> and not empty.\<close>

fun voiced :: "string \<times> pyval \<Rightarrow> bool" where
  "voiced (t, v) = truthy v"

text \<open>
  The provisioning succeeds: \<^verbatim>\<open>create_custom_voice\<close>, called at the start of the
  process, returns a value that is true as a condition. It fails when the call returns
  \<^verbatim>\<open>None\<close> or another false value, or ends in \<^verbatim>\<open>exit()\<close>.
\<close>

definition provisioned :: "world \<Rightarrow> bool" where
  "provisioned w =
     (case fst (create_custom_voice (w_prov w) (initial_state w)) of
        Inr v \<Rightarrow> truthy v
      | Inl r \<Rightarrow> False)"

text \<open>The environment variable \<^verbatim>\<open>ELEVENLABS_API_KEY\<close> is set and not empty.\<close>

definition has_api_key :: "world \<Rightarrow> bool" where
  "has_api_key w = (\<not> (w_api_key w = None \<or> w_api_key w = Some []))"

text \<open>The microphone works and the recognition service cannot make out any speech.\<close>

definition deaf :: listen_env where
  "deaf = \<lparr>ls_microphone = None, ls_capture = None, ls_mic_close = None,
     ls_recognize = Inl UnknownValueError, ls_case_table = sample_table\<rparr>"

text \<open>
  A start with an API key, an empty working directory, and a voice-creation endpoint
  that answers 200 with a JSON object without the \<open>voice_id\<close> field.
\<close>

definition no_voice_id_world :: world where
  "no_voice_id_world = \<lparr>w_api_key = Some ''key'', w_files = {},
     w_prov = upload_accepted (PDict [(''detail'', PStr ''quota'')]), w_greeting = quiet_tts\<rparr>"

section \<open>Frame lemmas\<close>

lemmas stmt_defs = ret_def raise_def bnd_def try_except_def emit_def lib_call_def lib_result_def
  with_block_def py_exit_def raise_for_status_def

lemma use_pyttsx3_frame:
  "use_pyttsx3 env a s = (r, s') \<Longrightarrow>
     r = Inr () \<and> VOICE_ID s' = VOICE_ID s \<and>
     (\<exists>evs. trace s' = trace s @ Call_use_pyttsx3 a # evs \<and> list_all is_print evs)"
  by (auto simp: use_pyttsx3_def stmt_defs split: option.splits sum.splits prod.splits raised.splits)

lemma is_print_in_play: "list_all is_print evs \<Longrightarrow> list_all in_play evs"
proof (induction evs)
  case Nil
  then show ?case by simp
next
  case (Cons e evs)
  then show ?case by (cases e) simp_all
qed

lemma in_play_in_tts: "list_all in_play evs \<Longrightarrow> list_all in_tts evs"
proof (induction evs)
  case Nil
  then show ?case by simp
next
  case (Cons e evs)
  then show ?case by (cases e) simp_all
qed

lemma play_frame:
  "play_audio_from_stream env a s = (r, s') \<Longrightarrow>
     r = Inr () \<and> VOICE_ID s' = VOICE_ID s \<and>
     (\<exists>evs. trace s' = trace s @ Call_play_audio_from_stream a # evs \<and> list_all in_play evs)"
  apply (simp add: play_audio_from_stream_def primary_playback_def stmt_defs split: option.splits sum.splits prod.splits raised.splits if_splits)
  apply (auto dest!: use_pyttsx3_frame simp: is_print_in_play)
  done

lemma tts_frame:
  "text_to_speech env t v s = (r, s') \<Longrightarrow>
     r = Inr () \<and> VOICE_ID s' = VOICE_ID s \<and>
     (\<exists>evs. trace s' = trace s @ Call_text_to_speech t v # evs \<and> list_all in_tts evs)"
  apply (simp add: text_to_speech_def stmt_defs split: option.splits sum.splits prod.splits raised.splits if_splits)
  apply (auto dest!: play_frame simp: in_play_in_tts)
  done

lemma filter_fallback_prints: "list_all is_print evs \<Longrightarrow> filter is_fallback evs = []"
proof (induction evs)
  case Nil
  then show ?case by simp
next
  case (Cons e evs)
  then show ?case by (cases e) simp_all
qed

lemma primary_playback_state: "snd (primary_playback env s) = s"
  by (simp add: primary_playback_def stmt_defs split: option.splits sum.splits prod.splits)

lemma primary_playback_result: "fst (primary_playback env s) = fst (primary_playback env s0)"
  by (simp add: primary_playback_def stmt_defs split: option.splits sum.splits prod.splits)

section \<open>Speech synthesizer: the precondition on the voice identifier\<close>

text \<open>
  With any voice identifier other than \<^verbatim>\<open>None\<close>, the first thing \<^verbatim>\<open>text_to_speech\<close>
  does is the POST to the synthesis endpoint.
\<close>

lemma tts_request:
  assumes "v \<noteq> PNone"
  shows "\<exists>evs. trace (snd (text_to_speech env t v s)) =
           trace s @ Call_text_to_speech t v #
             HttpPost [S ''https://api.elevenlabs.io/v1/text-to-speech/'', V v] # evs"
proof (cases "text_to_speech env t v s")
  case (Pair r s')
  then have "\<exists>evs. trace s' = trace s @ Call_text_to_speech t v #
             HttpPost [S ''https://api.elevenlabs.io/v1/text-to-speech/'', V v] # evs"
    using assms
    apply (simp add: text_to_speech_def stmt_defs split: option.splits sum.splits prod.splits raised.splits if_splits)
    apply (auto dest!: play_frame)
    done
  then show ?thesis using Pair by simp
qed

text \<open>The call with the empty string as voice identifier, the endpoint answering 200.\<close>

lemma empty_voice_id_run:
  "text_to_speech quiet_tts ''Goodbye!'' (PStr []) state0 =
     (Inr (), state0\<lparr>trace := [Call_text_to_speech ''Goodbye!'' (PStr []),
        HttpPost [S ''https://api.elevenlabs.io/v1/text-to-speech/'', V (PStr [])],
        Call_play_audio_from_stream [73, 68, 51]]\<rparr>)"
  by (simp add: text_to_speech_def quiet_tts_def ok_response_def state0_def stmt_defs
      play_audio_from_stream_def primary_playback_def quiet_play_def)

text \<open>
  Claim C8, as stated: \<^verbatim>\<open>text_to_speech\<close> requires a non-empty voice identifier. The
  empty string is not a non-empty identifier (it is false as a condition), and with it
  \<^verbatim>\<open>text_to_speech\<close> prints no precondition error: it sends the POST, with the
  identifier in the URL, and plays the answer.
\<close>

theorem empty_voice_id_counterexample:
  "\<not> truthy (PStr []) \<and>
   text_to_speech quiet_tts ''Goodbye!'' (PStr []) state0 =
     (Inr (), state0\<lparr>trace := [Call_text_to_speech ''Goodbye!'' (PStr []),
        HttpPost [S ''https://api.elevenlabs.io/v1/text-to-speech/'', V (PStr [])],
        Call_play_audio_from_stream [73, 68, 51]]\<rparr>) \<and>
   filter is_request (trace (snd (text_to_speech quiet_tts ''Goodbye!'' (PStr []) state0))) =
     [HttpPost [S ''https://api.elevenlabs.io/v1/text-to-speech/'', V (PStr [])]]"
  by (simp add: empty_voice_id_run)

text \<open>
  Claim C8, amended. The test of \<^verbatim>\<open>text_to_speech\<close> is \<^verbatim>\<open>voice_id is None\<close>. When the
  voice identifier is \<^verbatim>\<open>None\<close>, \<^verbatim>\<open>text_to_speech\<close> prints the precondition error and
  returns: the only events are its own entry and that message, and the trace gains no
  network request. With every other identifier \<open>v\<close>, the empty string included, its
  entry is followed by the POST to the synthesis endpoint.
\<close>

theorem text_to_speech_voice_id_guard:
  "text_to_speech env text PNone s =
     (Inr (), s\<lparr>trace := trace s @ [Call_text_to_speech text PNone,
                                    Print [S ''Error: No voice ID provided.'']]\<rparr>)
   \<and> filter is_request (trace (snd (text_to_speech env text PNone s))) = filter is_request (trace s)
   \<and> (v \<noteq> PNone \<longrightarrow>
        (\<exists>evs. trace (snd (text_to_speech env text v s)) =
           trace s @ Call_text_to_speech text v #
             HttpPost [S ''https://api.elevenlabs.io/v1/text-to-speech/'', V v] # evs))"
  using tts_request[of v env "text" s] by (simp add: text_to_speech_def stmt_defs)

text \<open>
  The amended theorem at the identifier \<open>voice-1\<close>, with an endpoint that answers 500:
  the POST is made; with \<^verbatim>\<open>None\<close> there is no request.
\<close>

theorem text_to_speech_voice_id_guard_witness:
  "PStr ''voice-1'' \<noteq> PNone \<and>
   (\<exists>evs. trace (snd (text_to_speech failing_tts ''Goodbye!'' (PStr ''voice-1'') state0)) =
      trace state0 @ Call_text_to_speech ''Goodbye!'' (PStr ''voice-1'') #
        HttpPost [S ''https://api.elevenlabs.io/v1/text-to-speech/'', V (PStr ''voice-1'')] # evs) \<and>
   filter is_request (trace (snd (text_to_speech failing_tts ''Goodbye!'' PNone state0))) = []"
  using text_to_speech_voice_id_guard[of failing_tts "''Goodbye!''" state0 "PStr ''voice-1''"]
  by (simp add: state0_def)

section \<open>Audio player: no exception escapes, one fallback call\<close>

text \<open>
  Claim C6. \<^verbatim>\<open>play_audio_from_stream\<close> always returns normally to its caller (no
  exception of class \<^verbatim>\<open>Exception\<close> escapes it), and when the primary playback raises
  \<^verbatim>\<open>PlaysoundException\<close> the trace gains exactly one call of \<^verbatim>\<open>use_pyttsx3\<close>, with
  the same audio bytes.
\<close>

theorem play_audio_from_stream_no_raise_one_fallback:
  "(\<exists>s'. play_audio_from_stream env a s = (Inr (), s')) \<and>
   (fst (primary_playback env s) = Inl (Exc PlaysoundException) \<longrightarrow>
      filter is_fallback (trace (snd (play_audio_from_stream env a s)))
        = filter is_fallback (trace s) @ [Call_use_pyttsx3 a])"
proof
  obtain r s' where run: "play_audio_from_stream env a s = (r, s')"
    by (cases "play_audio_from_stream env a s")
  from play_frame[OF run] show "\<exists>s'. play_audio_from_stream env a s = (Inr (), s')"
    using run by simp
next
  show "fst (primary_playback env s) = Inl (Exc PlaysoundException) \<longrightarrow>
      filter is_fallback (trace (snd (play_audio_from_stream env a s)))
        = filter is_fallback (trace s) @ [Call_use_pyttsx3 a]"
  proof
    assume fail: "fst (primary_playback env s) = Inl (Exc PlaysoundException)"
    let ?s1 = "s\<lparr>trace := trace s @ [Call_play_audio_from_stream a]\<rparr>"
    let ?s2 = "?s1\<lparr>trace := trace ?s1 @ [Print [S ''Error playing audio with playsound: '', E PlaysoundException]]\<rparr>"
    have p1: "primary_playback env ?s1 = (Inl (Exc PlaysoundException), ?s1)"
      using fail primary_playback_state[of env ?s1] primary_playback_result[of env ?s1 s]
      by (metis prod.collapse)
    have eq: "play_audio_from_stream env a s = use_pyttsx3 (pl_fallback env) a ?s2"
      using p1 by (simp add: play_audio_from_stream_def bnd_def emit_def try_except_def)
    obtain r s' where fb: "use_pyttsx3 (pl_fallback env) a ?s2 = (r, s')"
      by (cases "use_pyttsx3 (pl_fallback env) a ?s2")
    from use_pyttsx3_frame[OF fb] obtain evs where
      "trace s' = trace ?s2 @ Call_use_pyttsx3 a # evs" "list_all is_print evs" by blast
    then show "filter is_fallback (trace (snd (play_audio_from_stream env a s)))
        = filter is_fallback (trace s) @ [Call_use_pyttsx3 a]"
      using eq fb by (simp add: filter_fallback_prints)
  qed
qed

text \<open>The theorem at an environment where \<^verbatim>\<open>playsound\<close> fails.\<close>

theorem play_audio_from_stream_fallback_witness:
  "fst (primary_playback failing_play state0) = Inl (Exc PlaysoundException) \<and>
   play_audio_from_stream failing_play [1, 2, 3] state0
     = (Inr (), state0\<lparr>trace := [Call_play_audio_from_stream [1, 2, 3],
          Print [S ''Error playing audio with playsound: '', E PlaysoundException],
          Call_use_pyttsx3 [1, 2, 3]]\<rparr>) \<and>
   filter is_fallback (trace (snd (play_audio_from_stream failing_play [1, 2, 3] state0)))
     = [Call_use_pyttsx3 [1, 2, 3]]"
proof -
  have h: "fst (primary_playback failing_play state0) = Inl (Exc PlaysoundException)"
    by (simp add: primary_playback_def failing_play_def quiet_play_def stmt_defs)
  have run: "play_audio_from_stream failing_play [1, 2, 3] state0
     = (Inr (), state0\<lparr>trace := [Call_play_audio_from_stream [1, 2, 3],
          Print [S ''Error playing audio with playsound: '', E PlaysoundException],
          Call_use_pyttsx3 [1, 2, 3]]\<rparr>)"
    by (simp add: play_audio_from_stream_def primary_playback_def use_pyttsx3_def failing_play_def
        quiet_play_def quiet_fallback_def state0_def stmt_defs)
  from play_audio_from_stream_no_raise_one_fallback[of failing_play "[1, 2, 3]" state0] h
  have "filter is_fallback (trace (snd (play_audio_from_stream failing_play [1, 2, 3] state0)))
     = filter is_fallback (trace state0) @ [Call_use_pyttsx3 [1, 2, 3]]" by blast
  then show ?thesis using h run by (simp add: state0_def)
qed

section \<open>The effect of one dispatcher call\<close>

lemma spoken_append: "spoken (xs @ ys) = spoken xs @ spoken ys"
  by (induction xs rule: spoken.induct) simp_all

lemma dispatched_append: "dispatched (xs @ ys) = dispatched xs @ dispatched ys"
  by (induction xs rule: dispatched.induct) simp_all

lemma in_tts_quiet: "list_all in_tts evs \<Longrightarrow> spoken evs = [] \<and> dispatched evs = []"
proof (induction evs)
  case Nil
  then show ?case by simp
next
  case (Cons e evs)
  then show ?case by (cases e) simp_all
qed

lemma tts_effect:
  assumes "text_to_speech env t v s = (r, s')"
  shows "r = Inr () \<and> VOICE_ID s' = VOICE_ID s \<and>
         spoken (trace s') = spoken (trace s) @ [(t, v)] \<and>
         dispatched (trace s') = dispatched (trace s)"
  using tts_frame[OF assms] by (auto simp: spoken_append dispatched_append in_tts_quiet)

lemma speak_then_return:
  "\<exists>s'. bnd (\<lambda>s. text_to_speech env t (VOICE_ID s) s) (\<lambda>_. ret b) s = (Inr b, s') \<and>
        VOICE_ID s' = VOICE_ID s \<and>
        spoken (trace s') = spoken (trace s) @ [(t, VOICE_ID s)] \<and>
        dispatched (trace s') = dispatched (trace s)"
proof (cases "text_to_speech env t (VOICE_ID s) s")
  case (Pair r s')
  from tts_effect[OF Pair] Pair show ?thesis
    by (simp add: bnd_def ret_def)
qed

lemma branch_effect:
  assumes "process_command env q s =
     bnd (\<lambda>s. text_to_speech (cmd_tts env) t (VOICE_ID s) s) (\<lambda>_. ret b)
       (s\<lparr>trace := trace s @ [Call_process_command q]\<rparr>)"
  shows "\<exists>s'. process_command env q s = (Inr b, s') \<and>
        VOICE_ID s' = VOICE_ID s \<and>
        spoken (trace s') = spoken (trace s) @ [(t, VOICE_ID s)] \<and>
        dispatched (trace s') = dispatched (trace s) @ [q]"
proof -
  let ?s1 = "s\<lparr>trace := trace s @ [Call_process_command q]\<rparr>"
  obtain s' where
    "bnd (\<lambda>s. text_to_speech (cmd_tts env) t (VOICE_ID s) s) (\<lambda>_. ret b) ?s1 = (Inr b, s')"
    "VOICE_ID s' = VOICE_ID ?s1"
    "spoken (trace s') = spoken (trace ?s1) @ [(t, VOICE_ID ?s1)]"
    "dispatched (trace s') = dispatched (trace ?s1)"
    using speak_then_return[of "cmd_tts env" t b ?s1] by blast
  then show ?thesis using assms by (simp add: spoken_append dispatched_append)
qed

lemma process_command_entry:
  "process_command env q s =
     (if str_in ''hello'' q then
        bnd (\<lambda>s. text_to_speech (cmd_tts env) ''Hello! How can I help you?'' (VOICE_ID s) s)
          (\<lambda>_. ret False)
      else if str_in ''what is the time'' q then
        bnd (\<lambda>s. text_to_speech (cmd_tts env)
                   (''The time is '' @ strftime_I_M_p (cmd_now env)) (VOICE_ID s) s)
          (\<lambda>_. ret False)
      else if str_in ''exit'' q \<or> str_in ''quit'' q \<or> str_in ''stop'' q then
        bnd (\<lambda>s. text_to_speech (cmd_tts env) ''Goodbye!'' (VOICE_ID s) s) (\<lambda>_. ret True)
      else
        bnd (\<lambda>s. text_to_speech (cmd_tts env)
                   (''I'' @ [CHR 0x27] @ ''m sorry, I don'' @ [CHR 0x27] @ ''t understand that yet.'')
                   (VOICE_ID s) s)
          (\<lambda>_. ret False))
     (s\<lparr>trace := trace s @ [Call_process_command q]\<rparr>)"
  unfolding process_command_def
  by (subst bnd_def) (simp only: emit_def prod.case sum.case)

lemma process_command_hello:
  assumes "str_in ''hello'' q"
  shows "\<exists>s'. process_command env q s = (Inr False, s') \<and>
        VOICE_ID s' = VOICE_ID s \<and>
        spoken (trace s') = spoken (trace s) @ [(''Hello! How can I help you?'', VOICE_ID s)] \<and>
        dispatched (trace s') = dispatched (trace s) @ [q]"
  by (rule branch_effect) (simp only: process_command_entry assms if_True)

lemma process_command_time:
  assumes "\<not> str_in ''hello'' q" "str_in ''what is the time'' q"
  shows "\<exists>s'. process_command env q s = (Inr False, s') \<and>
        VOICE_ID s' = VOICE_ID s \<and>
        spoken (trace s') = spoken (trace s) @
          [(''The time is '' @ strftime_I_M_p (cmd_now env), VOICE_ID s)] \<and>
        dispatched (trace s') = dispatched (trace s) @ [q]"
  by (rule branch_effect) (simp only: process_command_entry assms if_True if_False)

lemma process_command_exit:
  assumes "\<not> str_in ''hello'' q" "\<not> str_in ''what is the time'' q"
    "str_in ''exit'' q \<or> str_in ''quit'' q \<or> str_in ''stop'' q"
  shows "\<exists>s'. process_command env q s = (Inr True, s') \<and>
        VOICE_ID s' = VOICE_ID s \<and>
        spoken (trace s') = spoken (trace s) @ [(''Goodbye!'', VOICE_ID s)] \<and>
        dispatched (trace s') = dispatched (trace s) @ [q]"
  by (rule branch_effect) (simp only: process_command_entry assms if_True if_False)

lemma process_command_other:
  assumes "\<not> str_in ''hello'' q" "\<not> str_in ''what is the time'' q"
    "\<not> (str_in ''exit'' q \<or> str_in ''quit'' q \<or> str_in ''stop'' q)"
  shows "\<exists>s'. process_command env q s = (Inr False, s') \<and>
        VOICE_ID s' = VOICE_ID s \<and>
        spoken (trace s') = spoken (trace s) @
          [(''I'' @ [CHR 0x27] @ ''m sorry, I don'' @ [CHR 0x27] @ ''t understand that yet.'', VOICE_ID s)] \<and>
        dispatched (trace s') = dispatched (trace s) @ [q]"
  by (rule branch_effect) (simp only: process_command_entry assms if_True if_False)

lemma process_command_any:
  "\<exists>b t s'. process_command env q s = (Inr b, s') \<and>
        b = (\<not> str_in ''hello'' q \<and> \<not> str_in ''what is the time'' q \<and>
             (str_in ''exit'' q \<or> str_in ''quit'' q \<or> str_in ''stop'' q)) \<and>
        VOICE_ID s' = VOICE_ID s \<and>
        spoken (trace s') = spoken (trace s) @ [(t, VOICE_ID s)] \<and>
        dispatched (trace s') = dispatched (trace s) @ [q]"
proof (cases "str_in ''hello'' q")
  case True
  from process_command_hello[OF True, of env s] show ?thesis using True by blast
next
  case nh: False
  show ?thesis
  proof (cases "str_in ''what is the time'' q")
    case True
    from process_command_time[OF nh True, of env s] show ?thesis using nh True by blast
  next
    case nt: False
    show ?thesis
    proof (cases "str_in ''exit'' q \<or> str_in ''quit'' q \<or> str_in ''stop'' q")
      case True
      from process_command_exit[OF nh nt True, of env s] show ?thesis using nh nt True by blast
    next
      case False
      from process_command_other[OF nh nt False, of env s] show ?thesis using nh nt False by blast
    qed
  qed
qed

section \<open>Command dispatcher: the order of the triggers\<close>

text \<open>
  Claim C2. For every utterance that contains both \<open>hello\<close> and \<open>exit\<close>,
  \<^verbatim>\<open>process_command\<close> returns \<^verbatim>\<open>False\<close> and makes exactly one synthesis call, with the
  greeting text: the first branch of the chain wins.
\<close>

theorem hello_wins_over_exit:
  "str_in ''hello'' q \<Longrightarrow> str_in ''exit'' q \<Longrightarrow>
     fst (process_command env q s) = Inr False \<and>
     spoken (trace (snd (process_command env q s)))
       = spoken (trace s) @ [(''Hello! How can I help you?'', VOICE_ID s)]"
  using process_command_hello[of q env s] by auto

text \<open>The theorem at the utterance \<open>hello exit\<close>.\<close>

theorem hello_wins_over_exit_witness:
  "str_in ''hello'' ''hello exit'' \<and> str_in ''exit'' ''hello exit'' \<and>
   fst (process_command quiet_cmd ''hello exit'' state0) = Inr False \<and>
   spoken (trace (snd (process_command quiet_cmd ''hello exit'' state0)))
     = [(''Hello! How can I help you?'', PStr ''voice-1'')]"
proof -
  have h: "str_in ''hello'' ''hello exit''" and e: "str_in ''exit'' ''hello exit''" by simp_all
  from hello_wins_over_exit[OF h e, of quiet_cmd state0] h e show ?thesis
    by (simp add: state0_def)
qed

text \<open>
  Claim C3, as stated: every utterance that contains \<open>exit\<close>, \<open>quit\<close> or \<open>stop\<close>
  makes \<^verbatim>\<open>process_command\<close> return \<^verbatim>\<open>True\<close>. The utterance \<open>hello exit\<close> contains
  \<open>exit\<close> and the result is not \<^verbatim>\<open>True\<close>.
\<close>

theorem exit_phrase_after_hello_counterexample:
  "str_in ''exit'' ''hello exit'' \<and>
   fst (process_command quiet_cmd ''hello exit'' state0) \<noteq> Inr True"
proof -
  have h: "str_in ''hello'' ''hello exit''" by simp
  from process_command_hello[OF h, of quiet_cmd state0] show ?thesis by auto
qed

text \<open>
  Claim C3, amended. For every utterance that contains \<open>exit\<close>, \<open>quit\<close> or \<open>stop\<close> and
  contains neither \<open>hello\<close> nor \<open>what is the time\<close> (the two triggers tested before),
  \<^verbatim>\<open>process_command\<close> returns \<^verbatim>\<open>True\<close>, after one synthesis call with the farewell.
\<close>

theorem exit_phrase_terminates:
  "\<not> str_in ''hello'' q \<Longrightarrow> \<not> str_in ''what is the time'' q \<Longrightarrow>
   str_in ''exit'' q \<or> str_in ''quit'' q \<or> str_in ''stop'' q \<Longrightarrow>
     fst (process_command env q s) = Inr True \<and>
     spoken (trace (snd (process_command env q s))) = spoken (trace s) @ [(''Goodbye!'', VOICE_ID s)]"
  using process_command_exit[of q env s] by auto

text \<open>The amended theorem at the utterance \<open>please stop\<close>.\<close>

theorem exit_phrase_terminates_witness:
  "\<not> str_in ''hello'' ''please stop'' \<and> \<not> str_in ''what is the time'' ''please stop'' \<and>
   str_in ''stop'' ''please stop'' \<and>
   fst (process_command quiet_cmd ''please stop'' state0) = Inr True \<and>
   spoken (trace (snd (process_command quiet_cmd ''please stop'' state0)))
     = [(''Goodbye!'', PStr ''voice-1'')]"
proof -
  have a: "\<not> str_in ''hello'' ''please stop''" and b: "\<not> str_in ''what is the time'' ''please stop''"
    and c: "str_in ''stop'' ''please stop''" by simp_all
  from c have c': "str_in ''exit'' ''please stop'' \<or> str_in ''quit'' ''please stop'' \<or> str_in ''stop'' ''please stop''"
    by blast
  from exit_phrase_terminates[OF a b c', of quiet_cmd state0] a b c show ?thesis
    by (simp add: state0_def)
qed

section \<open>Command dispatcher: synthesis failures\<close>

text \<open>
  Claim C7. Whatever the synthesis endpoint and the player do (any two environments, so
  also a 2xx answer against a non-2xx one), \<^verbatim>\<open>process_command\<close> returns a boolean, never
  raises, and the boolean is the same for the same utterance.
\<close>

theorem synthesis_outcome_keeps_decision:
  "fst (process_command env1 q s1) = fst (process_command env2 q s2) \<and>
   (\<exists>b. fst (process_command env1 q s1) = Inr b)"
  using process_command_any[of env1 q s1] process_command_any[of env2 q s2] by auto

text \<open>A 500 answer of the synthesis endpoint: the error is printed and the call returns.\<close>

lemma tts_http_500:
  "text_to_speech failing_tts t (PStr ''voice-1'') state0 =
     (Inr (), state0\<lparr>trace := [Call_text_to_speech t (PStr ''voice-1''),
        HttpPost [S ''https://api.elevenlabs.io/v1/text-to-speech/'', V (PStr ''voice-1'')],
        Print [S ''Error during TTS request: '', E HTTPError]]\<rparr>)"
  by (simp add: text_to_speech_def failing_tts_def ok_response_def state0_def
      ret_def raise_def bnd_def try_except_def emit_def lib_result_def raise_for_status_def)

section \<open>Command dispatcher: the time query\<close>









text \<open>At 15:07 the formatted time is \<open>03:07 PM\<close>.\<close>

lemma strftime_example: "strftime_I_M_p \<lparr>hour = 15, minute = 7\<rparr> = ''03:07 PM''"
  by (simp add: strftime_I_M_p_def two_digits_def)

section \<open>Speech recognizer: what one call does\<close>

lemma listen_frame:
  "listen env s = (r, s') \<Longrightarrow>
     VOICE_ID s' = VOICE_ID s \<and>
     (\<exists>evs. trace s' = trace s @ Call_listen # evs \<and> list_all is_print evs)"
  by (auto simp: listen_def stmt_defs split: option.splits sum.splits prod.splits raised.splits if_splits)

lemma listen_result:
  "listen env s = (Inr command, s') \<Longrightarrow> ls_recognize env = Inr t \<Longrightarrow>
     command = lower (ls_case_table env) t"
  by (auto simp: listen_def stmt_defs split: option.splits sum.splits prod.splits raised.splits if_splits)

lemma is_print_quiet: "list_all is_print evs \<Longrightarrow> spoken evs = [] \<and> dispatched evs = []"
proof (induction evs)
  case Nil
  then show ?case by simp
next
  case (Cons e evs)
  then show ?case by (cases e) simp_all
qed

lemma listen_quiet:
  assumes "listen env s = (r, s')"
  shows "VOICE_ID s' = VOICE_ID s \<and> spoken (trace s') = spoken (trace s) \<and>
         dispatched (trace s') = dispatched (trace s)"
  using listen_frame[OF assms] by (auto simp: spoken_append dispatched_append is_print_quiet)

lemma str_in_front: "str_in sub (sub @ ss)"
proof (cases "sub @ ss")
  case Nil
  then show ?thesis by simp
next
  case (Cons a list)
  have "take (length sub) (sub @ ss) = sub" by simp
  then have "take (length sub) (a # list) = sub" using Cons by simp
  then show ?thesis using Cons by simp
qed

lemma str_in_middle: "str_in sub (ps @ sub @ ss)"
proof (induction ps)
  case Nil
  show ?case using str_in_front by simp
next
  case (Cons p ps)
  then show ?case by simp
qed

section \<open>Command dispatcher: letter case\<close>

text \<open>
  \<^verbatim>\<open>str.lower()\<close> keeps a word of ASCII letters in its place, lowered, whatever the
  tables make of the text around it.
\<close>

lemma capital_is_ascii: "c \<in> set ''ABCDEFGHIJKLMNOPQRSTUVWXYZ'' \<Longrightarrow> is_ascii c"
  by (auto simp: is_ascii_def)

lemma lower_char_changes: "lower_char c \<noteq> c \<Longrightarrow> is_ascii c"
proof -
  assume a: "lower_char c \<noteq> c"
  then obtain l where
    "map_of (zip ''ABCDEFGHIJKLMNOPQRSTUVWXYZ'' ''abcdefghijklmnopqrstuvwxyz'') c = Some l"
    by (auto simp: lower_char_def split: option.splits)
  then have "(c, l) \<in> set (zip ''ABCDEFGHIJKLMNOPQRSTUVWXYZ'' ''abcdefghijklmnopqrstuvwxyz'')"
    by (rule map_of_SomeD)
  then have "c \<in> set ''ABCDEFGHIJKLMNOPQRSTUVWXYZ''" by (rule set_zip_leftD)
  then show ?thesis by (rule capital_is_ascii)
qed

lemma lower_char_ascii: "is_ascii (lower_char c) \<Longrightarrow> is_ascii c"
  using lower_char_changes[of c] by (cases "lower_char c = c") simp_all

lemma lowered_ascii: "list_all is_ascii (map lower_char h) \<Longrightarrow> list_all is_ascii h"
  by (induction h) (auto dest: lower_char_ascii)

lemma lower_from_ascii:
  "list_all is_ascii h \<Longrightarrow>
   lower_from U b (h @ ss) = map lower_char h @ lower_from U (b @ h) ss"
  by (induction h arbitrary: b) simp_all

lemma lower_from_append:
  "\<exists>front. lower_from U b (ps @ rest) = front @ lower_from U (b @ ps) rest"
proof (induction ps arbitrary: b)
  case Nil
  show ?case by simp
next
  case (Cons p ps)
  from Cons[of "b @ [p]"] obtain front where
    "lower_from U (b @ [p]) (ps @ rest) = front @ lower_from U (b @ p # ps) rest" by auto
  then show ?case by simp
qed

lemma lower_keeps_ascii_word:
  assumes "map lower_char h = w" and "list_all is_ascii w"
  shows "\<exists>front rear. lower U (ps @ h @ ss) = front @ w @ rear"
proof -
  have h: "list_all is_ascii h" using assms lowered_ascii by blast
  obtain front where "lower_from U [] (ps @ h @ ss) = front @ lower_from U ([] @ ps) (h @ ss)"
    using lower_from_append[of U "[]" ps "h @ ss"] by blast
  then have "lower U (ps @ h @ ss) = front @ w @ lower_from U (ps @ h) ss"
    using lower_from_ascii[OF h, of U ps ss] assms(1) by (simp add: lower_def)
  then show ?thesis by blast
qed

lemma hello_is_ascii: "list_all is_ascii ''hello''"
  by (simp add: is_ascii_def)

text \<open>The sample tables on the accented capital followed by \<open>Hi\<close>: both are lowered.\<close>

lemma sample_lower: "lower sample_table [CHR 0xC3, CHR 0x89, CHR '' '', CHR ''H'', CHR ''i'']
   = [CHR 0xC3, CHR 0xA9, CHR '' '', CHR ''h'', CHR ''i'']"
  by (simp add: lower_def sample_table_def is_ascii_def lower_char_def)

text \<open>Without the lower-case \<open>hello\<close> in the utterance, the greeting is not what is spoken.\<close>

lemma process_command_no_hello:
  assumes "\<not> str_in ''hello'' q"
  shows "spoken (trace (snd (process_command env q s)))
           \<noteq> spoken (trace s) @ [(''Hello! How can I help you?'', VOICE_ID s)]"
proof (cases "str_in ''what is the time'' q")
  case True
  from process_command_time[OF assms True, of env s] show ?thesis by auto
next
  case nt: False
  show ?thesis
  proof (cases "str_in ''exit'' q \<or> str_in ''quit'' q \<or> str_in ''stop'' q")
    case True
    from process_command_exit[OF assms nt True, of env s] show ?thesis by auto
  next
    case False
    from process_command_other[OF assms nt False, of env s] show ?thesis by auto
  qed
qed

text \<open>
  Claim C4, as stated: \<^verbatim>\<open>process_command\<close> greets on every utterance that contains
  \<open>hello\<close> in any case. The utterance \<open>HELLO\<close> is \<open>hello\<close> in upper case;
  \<^verbatim>\<open>process_command\<close> returns \<^verbatim>\<open>False\<close> on it, and what it speaks is not the greeting.
\<close>

theorem uppercase_hello_counterexample:
  "map lower_char ''HELLO'' = ''hello'' \<and>
   fst (process_command quiet_cmd ''HELLO'' state0) = Inr False \<and>
   spoken (trace (snd (process_command quiet_cmd ''HELLO'' state0)))
     \<noteq> [(''Hello! How can I help you?'', PStr ''voice-1'')]"
proof -
  have l: "map lower_char ''HELLO'' = ''hello''" by (simp add: lower_char_def)
  have a: "\<not> str_in ''hello'' ''HELLO''" and b: "\<not> str_in ''what is the time'' ''HELLO''"
    and c: "\<not> (str_in ''exit'' ''HELLO'' \<or> str_in ''quit'' ''HELLO'' \<or> str_in ''stop'' ''HELLO'')"
    by simp_all
  from process_command_other[OF a b c, of quiet_cmd state0] l show ?thesis
    by (auto simp: state0_def)
qed

text \<open>
  Claim C4, amended. The case-insensitivity is \<^verbatim>\<open>listen\<close>'s, which lowers the
  transcript with \<^verbatim>\<open>str.lower()\<close>. For every transcript that contains \<open>hello\<close> in
  any letter case (a word \<open>h\<close> whose letters lower to \<open>hello\<close>), with any text around it
  and any case tables, the utterance \<^verbatim>\<open>listen\<close> returns is the lowered transcript, it
  contains \<open>hello\<close>, and \<^verbatim>\<open>process_command\<close> on that utterance returns \<^verbatim>\<open>False\<close>
  after one synthesis call with the greeting. \<^verbatim>\<open>process_command\<close> itself tests the
  lower-case \<open>hello\<close> case-sensitively: on an utterance \<open>q\<close> that does not contain it,
  the greeting is not what it speaks.
\<close>

theorem heard_hello_any_case_greets:
  assumes "listen lenv s = (Inr command, s1)" and "ls_recognize lenv = Inr t"
    and "t = ps @ h @ ss" and "map lower_char h = ''hello''"
  shows "command = lower (ls_case_table lenv) t \<and> str_in ''hello'' command \<and>
     fst (process_command env command s1) = Inr False \<and>
     spoken (trace (snd (process_command env command s1)))
       = spoken (trace s) @ [(''Hello! How can I help you?'', VOICE_ID s)] \<and>
     (\<not> str_in ''hello'' q \<longrightarrow>
        spoken (trace (snd (process_command env q s1)))
          \<noteq> spoken (trace s1) @ [(''Hello! How can I help you?'', VOICE_ID s1)])"
proof -
  have c: "command = lower (ls_case_table lenv) t" using listen_result[OF assms(1,2)] .
  obtain front rear where "lower (ls_case_table lenv) (ps @ h @ ss) = front @ ''hello'' @ rear"
    using lower_keeps_ascii_word[OF assms(4) hello_is_ascii] by blast
  then have hello: "str_in ''hello'' command" using c assms(3) str_in_middle by metis
  from listen_quiet[OF assms(1)] process_command_hello[OF hello, of env s1] c hello
    process_command_no_hello[of q env s1]
  show ?thesis by auto
qed

text \<open>
  The amended theorem at a transcript that starts with the accented capital and goes on
  with \<open>HeLLo there\<close>, and at the utterance \<open>HELLO\<close>.
\<close>

theorem heard_hello_any_case_greets_witness:
  "listen (hearing ([CHR 0xC3, CHR 0x89] @ '' HeLLo there'')) state0
     = (Inr ([CHR 0xC3, CHR 0xA9] @ '' hello there''),
        state0\<lparr>trace := [Call_listen, Print [S ''Listening...''],
          Print [S ''Recognizing...''],
          Print [S ''User said: '', S ([CHR 0xC3, CHR 0x89] @ '' HeLLo there''), S [CHR 0x0A]]]\<rparr>) \<and>
   map lower_char ''HeLLo'' = ''hello'' \<and>
   str_in ''hello'' ([CHR 0xC3, CHR 0xA9] @ '' hello there'') \<and>
   fst (process_command quiet_cmd ([CHR 0xC3, CHR 0xA9] @ '' hello there'')
          (snd (listen (hearing ([CHR 0xC3, CHR 0x89] @ '' HeLLo there'')) state0)))
     = Inr False \<and>
   spoken (trace (snd (process_command quiet_cmd ([CHR 0xC3, CHR 0xA9] @ '' hello there'')
              (snd (listen (hearing ([CHR 0xC3, CHR 0x89] @ '' HeLLo there'')) state0)))))
     = [(''Hello! How can I help you?'', PStr ''voice-1'')] \<and>
   \<not> str_in ''hello'' ''HELLO'' \<and>
   spoken (trace (snd (process_command quiet_cmd ''HELLO''
              (snd (listen (hearing ([CHR 0xC3, CHR 0x89] @ '' HeLLo there'')) state0)))))
     \<noteq> [(''Hello! How can I help you?'', PStr ''voice-1'')]"
proof -
  let ?t = "[CHR 0xC3, CHR 0x89] @ '' HeLLo there''"
  let ?c = "[CHR 0xC3, CHR 0xA9] @ '' hello there''"
  let ?s1 = "state0\<lparr>trace := [Call_listen, Print [S ''Listening...''],
          Print [S ''Recognizing...''],
          Print [S ''User said: '', S ?t, S [CHR 0x0A]]]\<rparr>"
  have run: "listen (hearing ?t) state0 = (Inr ?c, ?s1)"
    by (simp add: listen_def hearing_def state0_def stmt_defs lower_def sample_table_def
        is_ascii_def lower_char_def)
  have rec: "ls_recognize (hearing ?t) = Inr ?t"
    by (simp add: hearing_def)
  have split: "?t = [CHR 0xC3, CHR 0x89, CHR '' ''] @ ''HeLLo'' @ '' there''" by simp
  have low: "map lower_char ''HeLLo'' = ''hello''" by (simp add: lower_char_def)
  have nh: "\<not> str_in ''hello'' ''HELLO''" by simp
  note all = heard_hello_any_case_greets[OF run rec split low, of quiet_cmd "''HELLO''"]
  note effect = all[THEN conjunct2, THEN conjunct2]
  from effect run low nh show ?thesis by (simp add: state0_def)
qed

section \<open>Voice provisioner: the sample file\<close>

lemmas prov_defs = create_custom_voice_def create_custom_voice_try_def
  create_custom_voice_except_def IPFS_VOICE_URL_def

text \<open>
  Claim C5 says that the downloaded sample file no longer exists on any exit path of
  \<^verbatim>\<open>create_custom_voice\<close>. The code removes it only on the path that reaches
  \<^verbatim>\<open>os.remove\<close>: when the download succeeds and the voice-creation endpoint answers
  500, \<^verbatim>\<open>create_custom_voice\<close> returns \<^verbatim>\<open>None\<close> and \<open>voice_sample.mp3\<close> still exists.
\<close>

theorem sample_file_left_after_failed_upload:
  "create_custom_voice upload_rejected fresh =
     (Inr PNone,
      \<lparr>VOICE_ID = PNone, files = {''voice_sample.mp3''},
       trace = [Call_create_custom_voice, HttpGet IPFS_VOICE_URL,
                HttpPost [S ''https://api.elevenlabs.io/v1/voices/add''],
                Print [S ''Error during request: '', E HTTPError]]\<rparr>)"
  by (simp add: prov_defs upload_rejected_def ok_response_def fresh_def stmt_defs)

text \<open>The same on the \<^verbatim>\<open>exit()\<close> path, when the answer has no \<^verbatim>\<open>voice_id\<close>.\<close>

lemma sample_file_left_after_exit:
  "create_custom_voice (upload_accepted (PDict [(''detail'', PStr ''quota'')])) fresh =
     (Inl SystemExit,
      \<lparr>VOICE_ID = PNone, files = {''voice_sample.mp3''},
       trace = [Call_create_custom_voice, HttpGet IPFS_VOICE_URL,
                HttpPost [S ''https://api.elevenlabs.io/v1/voices/add''],
                Print [S ''Error creating voice: '', V (PDict [(''detail'', PStr ''quota'')])],
                Exit]\<rparr>)"
  by (simp add: prov_defs upload_accepted_def ok_response_def fresh_def stmt_defs)

text \<open>On the success path the file is removed.\<close>

lemma sample_file_removed_on_success:
  "create_custom_voice (upload_accepted (PDict [(''voice_id'', PStr ''abc'')])) fresh =
     (Inr (PStr ''abc''),
      \<lparr>VOICE_ID = PStr ''abc'', files = {},
       trace = [Call_create_custom_voice, HttpGet IPFS_VOICE_URL,
                HttpPost [S ''https://api.elevenlabs.io/v1/voices/add''],
                Print [S ''Custom voice created with ID: '', V (PStr ''abc'')]]\<rparr>)"
  by (simp add: prov_defs upload_accepted_def ok_response_def fresh_def stmt_defs)

section \<open>What a statement adds to the trace\<close>

lemma emits_onlyI:
  "(\<And>s. \<exists>evs. trace (snd (m s)) = trace s @ evs \<and> list_all P evs) \<Longrightarrow> emits_only P m"
  by (simp add: emits_only_def)

lemma emits_onlyD:
  "emits_only P m \<Longrightarrow> \<exists>evs. trace (snd (m s)) = trace s @ evs \<and> list_all P evs"
  by (simp add: emits_only_def)

lemma eo_ret: "emits_only P (ret x)"
  by (simp add: emits_only_def ret_def)

lemma eo_raise: "emits_only P (raise r)"
  by (simp add: emits_only_def raise_def)

lemma eo_emit: "P ev \<Longrightarrow> emits_only P (emit ev)"
  by (simp add: emits_only_def emit_def)

lemma eo_py_exit: "P Exit \<Longrightarrow> emits_only P py_exit"
  by (simp add: emits_only_def py_exit_def)

lemma eo_lib_call: "emits_only P (lib_call x)"
  by (cases x) (simp_all add: lib_call_def eo_ret eo_raise)

lemma eo_lib_result: "emits_only P (lib_result x)"
  by (cases x) (simp_all add: lib_result_def eo_ret eo_raise)

lemma eo_raise_for_status: "emits_only P (raise_for_status r)"
  by (simp add: raise_for_status_def eo_ret eo_raise)

lemma eo_files: "emits_only P (\<lambda>s. (Inr x, s\<lparr>files := f s\<rparr>))"
  by (simp add: emits_only_def)

lemma eo_voice: "emits_only P (\<lambda>s. (Inr x, s\<lparr>VOICE_ID := v\<rparr>))"
  by (simp add: emits_only_def)

lemma eo_emit_read: "(\<And>s. P (ev s)) \<Longrightarrow> emits_only P (\<lambda>s. emit (ev s) s)"
  by (simp add: emits_only_def emit_def)

lemma eo_ret_read: "emits_only P (\<lambda>s. ret (f s) s)"
  by (simp add: emits_only_def ret_def)

lemma eo_if: "emits_only P a \<Longrightarrow> emits_only P b \<Longrightarrow> emits_only P (if c then a else b)"
  by simp

lemma eo_bnd:
  assumes m: "emits_only P m" and f: "\<And>x. emits_only P (f x)"
  shows "emits_only P (bnd m f)"
proof (rule emits_onlyI)
  fix s
  obtain r s1 where ms: "m s = (r, s1)" by (cases "m s")
  from emits_onlyD[OF m, of s] ms obtain evs1 where
    e1: "trace s1 = trace s @ evs1" "list_all P evs1" by auto
  show "\<exists>evs. trace (snd (bnd m f s)) = trace s @ evs \<and> list_all P evs"
  proof (cases r)
    case (Inl a)
    then show ?thesis using ms e1 by (simp add: bnd_def)
  next
    case (Inr x)
    from emits_onlyD[OF f, of x s1] obtain evs2 where
      e2: "trace (snd (f x s1)) = trace s1 @ evs2" "list_all P evs2" by auto
    have "trace (snd (bnd m f s)) = trace s @ (evs1 @ evs2)"
      using Inr ms e1 e2 by (simp add: bnd_def)
    moreover have "list_all P (evs1 @ evs2)" using e1 e2 by simp
    ultimately show ?thesis by blast
  qed
qed

lemma eo_try_except:
  assumes m: "emits_only P m" and f: "\<And>r. emits_only P (h r)"
  shows "emits_only P (try_except m h)"
proof (rule emits_onlyI)
  fix s
  obtain r s1 where ms: "m s = (r, s1)" by (cases "m s")
  from emits_onlyD[OF m, of s] ms obtain evs1 where
    e1: "trace s1 = trace s @ evs1" "list_all P evs1" by auto
  show "\<exists>evs. trace (snd (try_except m h s)) = trace s @ evs \<and> list_all P evs"
  proof (cases r)
    case (Inr a)
    then show ?thesis using ms e1 by (simp add: try_except_def)
  next
    case (Inl x)
    from emits_onlyD[OF f, of x s1] obtain evs2 where
      e2: "trace (snd (h x s1)) = trace s1 @ evs2" "list_all P evs2" by auto
    have "trace (snd (try_except m h s)) = trace s @ (evs1 @ evs2)"
      using Inl ms e1 e2 by (simp add: try_except_def)
    moreover have "list_all P (evs1 @ evs2)" using e1 e2 by simp
    ultimately show ?thesis by blast
  qed
qed

lemma eo_with_block:
  assumes a: "emits_only P a" and b: "emits_only P b"
  shows "emits_only P (with_block a b x)"
proof -
  have "emits_only P (\<lambda>s. case b s of (r, s') \<Rightarrow>
           (case x of Some e \<Rightarrow> (Inl (Exc e), s') | None \<Rightarrow> (r, s')))"
  proof (rule emits_onlyI)
    fix s
    obtain r s1 where bs: "b s = (r, s1)" by (cases "b s")
    from emits_onlyD[OF b, of s] bs obtain evs where
      "trace s1 = trace s @ evs" "list_all P evs" by auto
    then show "\<exists>evs. trace (snd (case b s of (r, s') \<Rightarrow>
           (case x of Some e \<Rightarrow> (Inl (Exc e), s') | None \<Rightarrow> (r, s')))) = trace s @ evs
           \<and> list_all P evs"
      using bs by (cases x) simp_all
  qed
  then show ?thesis unfolding with_block_def using a by (intro eo_bnd)
qed

section \<open>Voice provisioner: its events and its outcomes\<close>

text \<open>
  \<^verbatim>\<open>create_custom_voice\<close> adds only its own entry, requests, messages and the exit to the
  trace, and no exception escapes it: it returns, or it ends the process by \<^verbatim>\<open>exit()\<close>.
\<close>

lemmas eo_rules = eo_bnd eo_try_except eo_with_block eo_if eo_ret eo_raise eo_emit
  eo_py_exit eo_lib_call eo_lib_result eo_raise_for_status eo_files eo_voice
  eo_emit_read eo_ret_read

lemma eo_create_custom_voice_try: "emits_only in_prov (create_custom_voice_try env)"
  unfolding create_custom_voice_try_def
  by (intro eo_rules) simp_all

lemma eo_create_custom_voice_except: "emits_only in_prov (create_custom_voice_except r)"
proof (cases r)
  case (Exc e)
  show ?thesis unfolding create_custom_voice_except_def Exc raised.case
    by (intro eo_rules) simp_all
next
  case SystemExit
  show ?thesis unfolding create_custom_voice_except_def SystemExit raised.case
    by (rule eo_raise)
qed

lemma eo_create_custom_voice: "emits_only in_prov (create_custom_voice env)"
  unfolding create_custom_voice_def
  by (intro eo_bnd eo_try_except eo_emit eo_create_custom_voice_try eo_create_custom_voice_except)
     simp

lemma create_custom_voice_except_result:
  "fst (create_custom_voice_except r s) \<noteq> Inl (Exc e)"
  by (cases r) (simp_all add: create_custom_voice_except_def stmt_defs)

lemma create_custom_voice_no_exception:
  "fst (create_custom_voice env s) \<noteq> Inl (Exc e)"
proof -
  let ?s1 = "s\<lparr>trace := trace s @ [Call_create_custom_voice]\<rparr>"
  obtain r s2 where body: "create_custom_voice_try env ?s1 = (r, s2)"
    by (cases "create_custom_voice_try env ?s1")
  show ?thesis
  proof (cases r)
    case (Inl x)
    then have "create_custom_voice env s = create_custom_voice_except x s2"
      using body by (simp add: create_custom_voice_def bnd_def emit_def try_except_def)
    then show ?thesis using create_custom_voice_except_result by simp
  next
    case (Inr v)
    then have "create_custom_voice env s = (Inr v, s2)"
      using body by (simp add: create_custom_voice_def bnd_def emit_def try_except_def)
    then show ?thesis by simp
  qed
qed

section \<open>Main execution: the start of the process\<close>

text \<open>
  The start either ends the process by \<^verbatim>\<open>exit()\<close>, before any synthesis call and any
  turn of the loop, or it leaves a voice identifier that is true as a condition and has
  spoken the greeting with it.
\<close>

lemma in_prov_quiet: "list_all in_prov evs \<Longrightarrow> spoken evs = [] \<and> dispatched evs = []"
proof (induction evs)
  case Nil
  then show ?case by simp
next
  case (Cons e evs)
  then show ?case by (cases e) simp_all
qed

lemma provision_effect:
  "\<exists>r s'. provision w (initial_state w) = (r, s') \<and> list_all in_prov (trace s') \<and>
     (if provisioned w then r = Inr () \<and> truthy (VOICE_ID s') else r = Inl SystemExit)"
proof -
  let ?s = "initial_state w"
  have nv: "\<not> truthy (VOICE_ID ?s)" and t0: "trace ?s = []" by (simp_all add: initial_state_def)
  obtain cr s1 where run: "create_custom_voice (w_prov w) ?s = (cr, s1)"
    by (cases "create_custom_voice (w_prov w) ?s")
  from emits_onlyD[OF eo_create_custom_voice, of "w_prov w" ?s] run t0
  have tr: "list_all in_prov (trace s1)" by auto
  show ?thesis
  proof (cases cr)
    case (Inl x)
    have "x = SystemExit"
      using create_custom_voice_no_exception[of "w_prov w" ?s] run Inl by (cases x) auto
    then have "provision w ?s = (Inl SystemExit, s1)"
      using run Inl nv by (simp add: provision_def bnd_def)
    moreover have "\<not> provisioned w" using run Inl by (simp add: provisioned_def)
    ultimately show ?thesis using tr by simp
  next
    case (Inr v)
    show ?thesis
    proof (cases "truthy v")
      case True
      then have "provision w ?s = (Inr (), s1\<lparr>VOICE_ID := v\<rparr>)"
        using run Inr nv by (simp add: provision_def bnd_def ret_def)
      moreover have "provisioned w" using run Inr True by (simp add: provisioned_def)
      ultimately show ?thesis using tr True by simp
    next
      case False
      then have "provision w ?s =
        (Inl SystemExit, s1\<lparr>VOICE_ID := v, trace := trace s1 @
           [Print [S ''Failed to create custom voice. Exiting.''], Exit]\<rparr>)"
        using run Inr nv by (simp add: provision_def bnd_def ret_def emit_def py_exit_def)
      moreover have "\<not> provisioned w" using run Inr False by (simp add: provisioned_def)
      ultimately show ?thesis using tr by simp
    qed
  qed
qed

lemma startup_effect:
  "\<exists>r s'. startup w (initial_state w) = (r, s') \<and>
     (if has_api_key w \<and> provisioned w
      then r = Inr () \<and> truthy (VOICE_ID s') \<and> list_all voiced (spoken (trace s')) \<and>
           dispatched (trace s') = []
      else r = Inl SystemExit \<and> list_all in_prov (trace s'))"
proof (cases "has_api_key w")
  case False
  then have "startup w (initial_state w) =
     (Inl SystemExit, (initial_state w)\<lparr>trace := trace (initial_state w) @
        [Print [S ''Error: ElevenLabs API key not found in environment variables.''], Exit]\<rparr>)"
    by (simp add: startup_def check_api_key_def has_api_key_def bnd_def emit_def py_exit_def)
  then show ?thesis using False by (simp add: initial_state_def)
next
  case True
  then have key: "check_api_key (w_api_key w) (initial_state w) = (Inr (), initial_state w)"
    by (auto simp: check_api_key_def has_api_key_def ret_def)
  obtain r s1 where pr: "provision w (initial_state w) = (r, s1)" "list_all in_prov (trace s1)"
    "if provisioned w then r = Inr () \<and> truthy (VOICE_ID s1) else r = Inl SystemExit"
    using provision_effect[of w] by blast
  show ?thesis
  proof (cases "provisioned w")
    case False
    then have "startup w (initial_state w) = (Inl SystemExit, s1)"
      using key pr by (simp add: startup_def bnd_def)
    then show ?thesis using False pr by simp
  next
    case prov: True
    let ?g = "''Hello, I am your custom voice assistant. How can I help you today?''"
    obtain tr s2 where tts: "text_to_speech (w_greeting w) ?g (VOICE_ID s1) s1 = (tr, s2)"
      by (cases "text_to_speech (w_greeting w) ?g (VOICE_ID s1) s1")
    from prov pr have r: "r = Inr ()" and tv: "truthy (VOICE_ID s1)" by simp_all
    have "startup w (initial_state w) = (tr, s2)"
      using key pr(1) r tts by (simp add: startup_def bnd_def)
    moreover from tts_effect[OF tts] in_prov_quiet[OF pr(2)] tv
    have "tr = Inr () \<and> truthy (VOICE_ID s2) \<and> list_all voiced (spoken (trace s2)) \<and>
          dispatched (trace s2) = []" by simp
    ultimately show ?thesis using True prov by simp
  qed
qed

section \<open>Main execution: the loop\<close>

text \<open>
  From a state with a set voice identifier, every synthesis call of the loop carries a
  set identifier, and every utterance handed to the dispatcher is non-empty.
\<close>

lemma main_loop_safe:
  "truthy (VOICE_ID s) \<Longrightarrow>
   \<exists>sp qs. spoken (trace (snd (main_loop its s))) = spoken (trace s) @ sp \<and> list_all voiced sp \<and>
     dispatched (trace (snd (main_loop its s))) = dispatched (trace s) @ qs \<and>
     list_all (\<lambda>q. q \<noteq> []) qs"
proof (induction its arbitrary: s)
  case Nil
  then show ?case by simp
next
  case (Cons it its)
  obtain lr s1 where ls: "listen (it_listen it) s = (lr, s1)"
    by (cases "listen (it_listen it) s")
  from listen_quiet[OF ls] have q1: "VOICE_ID s1 = VOICE_ID s"
    "spoken (trace s1) = spoken (trace s)" "dispatched (trace s1) = dispatched (trace s)"
    by simp_all
  show ?case
  proof (cases lr)
    case (Inl x)
    then have "snd (main_loop (it # its) s) = s1" using ls by simp
    then show ?thesis using q1 by simp
  next
    case (Inr command)
    show ?thesis
    proof (cases "command = []")
      case True
      then have "main_loop (it # its) s = main_loop its s1" using ls Inr by simp
      moreover have "truthy (VOICE_ID s1)" using q1 Cons.prems by simp
      ultimately show ?thesis using Cons.IH[of s1] q1 by simp
    next
      case False
      obtain b t s2 where pc: "process_command (it_cmd it) command s1 = (Inr b, s2)"
        "VOICE_ID s2 = VOICE_ID s1"
        "spoken (trace s2) = spoken (trace s1) @ [(t, VOICE_ID s1)]"
        "dispatched (trace s2) = dispatched (trace s1) @ [command]"
        using process_command_any[of "it_cmd it" command s1] by blast
      have tv: "truthy (VOICE_ID s2)" using pc(2) q1 Cons.prems by simp
      show ?thesis
      proof (cases b)
        case True
        then have "snd (main_loop (it # its) s) = s2" using ls Inr False pc(1) by simp
        then have "spoken (trace (snd (main_loop (it # its) s))) = spoken (trace s) @ [(t, VOICE_ID s1)]"
          "dispatched (trace (snd (main_loop (it # its) s))) = dispatched (trace s) @ [command]"
          using pc q1 by simp_all
        moreover have "list_all voiced [(t, VOICE_ID s1)]" "list_all (\<lambda>q. q \<noteq> []) [command]"
          using q1 Cons.prems False by simp_all
        ultimately show ?thesis by blast
      next
        case nb: False
        then have eq: "main_loop (it # its) s = main_loop its s2" using ls Inr False pc(1) by simp
        from Cons.IH[OF tv] obtain sp qs where
          ih: "spoken (trace (snd (main_loop its s2))) = spoken (trace s2) @ sp" "list_all voiced sp"
          "dispatched (trace (snd (main_loop its s2))) = dispatched (trace s2) @ qs"
          "list_all (\<lambda>q. q \<noteq> []) qs" by blast
        have "spoken (trace (snd (main_loop (it # its) s))) = spoken (trace s) @ ((t, VOICE_ID s1) # sp)"
          "dispatched (trace (snd (main_loop (it # its) s))) = dispatched (trace s) @ (command # qs)"
          using eq ih pc q1 by simp_all
        moreover have "list_all voiced ((t, VOICE_ID s1) # sp)" "list_all (\<lambda>q. q \<noteq> []) (command # qs)"
          using ih q1 Cons.prems False by simp_all
        ultimately show ?thesis by blast
      qed
    qed
  qed
qed

lemma program_safe:
  "list_all voiced (spoken (trace (snd (program w its)))) \<and>
   list_all (\<lambda>q. q \<noteq> []) (dispatched (trace (snd (program w its)))) \<and>
   (if has_api_key w \<and> provisioned w then True
    else fst (program w its) = Exited \<and> list_all in_prov (trace (snd (program w its))))"
proof -
  obtain r s1 where st: "startup w (initial_state w) = (r, s1)"
    "if has_api_key w \<and> provisioned w
      then r = Inr () \<and> truthy (VOICE_ID s1) \<and> list_all voiced (spoken (trace s1)) \<and>
           dispatched (trace s1) = []
      else r = Inl SystemExit \<and> list_all in_prov (trace s1)"
    using startup_effect[of w] by blast
  show ?thesis
  proof (cases "has_api_key w \<and> provisioned w")
    case True
    with st have r: "r = Inr ()" and tv: "truthy (VOICE_ID s1)"
      and sp: "list_all voiced (spoken (trace s1))" and d: "dispatched (trace s1) = []" by simp_all
    have "program w its = main_loop its s1" using st(1) r by (simp add: program_def)
    then show ?thesis using main_loop_safe[OF tv, of its] sp d True by auto
  next
    case False
    with st have r: "r = Inl SystemExit" and tr: "list_all in_prov (trace s1)" by simp_all
    have "program w its = (Exited, s1)" using st(1) r by (simp add: program_def)
    then show ?thesis using in_prov_quiet[OF tr] tr False by simp
  qed
qed

lemma in_prov_no_listen: "list_all in_prov evs \<Longrightarrow> Call_listen \<notin> set evs"
proof (induction evs)
  case Nil
  then show ?case by simp
next
  case (Cons e evs)
  then show ?case by (cases e) simp_all
qed

text \<open>An answer of the voice-creation endpoint without \<open>voice_id\<close> is a failed provisioning.\<close>

lemma missing_voice_id_not_provisioned:
  "w_prov w = upload_accepted d \<Longrightarrow> py_in ''voice_id'' d = Inr False \<Longrightarrow> \<not> provisioned w"
  by (simp add: provisioned_def prov_defs upload_accepted_def ok_response_def stmt_defs)

section \<open>Main execution: the voice identifier is set before any synthesis call\<close>

text \<open>
  Claim C1. On every run of the process (any start, any number of turns of the loop, any
  outcomes of the library calls), every synthesis call made so far carries a voice
  identifier that is set (true as a condition: not \<^verbatim>\<open>None\<close>, not empty). When the
  provisioning fails, the process has ended by \<^verbatim>\<open>exit()\<close> and its trace holds only
  events of the start: no call of \<^verbatim>\<open>listen\<close>, so the loop never started, and no
  synthesis call.
\<close>

theorem voice_id_set_before_synthesis:
  "list_all voiced (spoken (trace (snd (program w its)))) \<and>
   (\<not> provisioned w \<longrightarrow>
      fst (program w its) = Exited \<and>
      list_all in_prov (trace (snd (program w its))) \<and>
      Call_listen \<notin> set (trace (snd (program w its))) \<and>
      spoken (trace (snd (program w its))) = [])"
  using program_safe[of w its]
  by (auto dest: in_prov_no_listen in_prov_quiet split: if_splits)

text \<open>
  The theorem at a start where the voice-creation endpoint answers without \<open>voice_id\<close>:
  the provisioning fails and the process ends inside \<^verbatim>\<open>create_custom_voice\<close>.
\<close>

theorem voice_id_set_before_synthesis_witness:
  "\<not> provisioned no_voice_id_world \<and>
   program no_voice_id_world [\<lparr>it_listen = hearing ''hello'', it_cmd = quiet_cmd\<rparr>] =
     (Exited,
      \<lparr>VOICE_ID = PNone, files = {''voice_sample.mp3''},
       trace = [Call_create_custom_voice, HttpGet IPFS_VOICE_URL,
                HttpPost [S ''https://api.elevenlabs.io/v1/voices/add''],
                Print [S ''Error creating voice: '', V (PDict [(''detail'', PStr ''quota'')])],
                Exit]\<rparr>)"
proof -
  have init: "initial_state no_voice_id_world = fresh"
    by (simp add: initial_state_def no_voice_id_world_def fresh_def)
  have prov: "w_prov no_voice_id_world = upload_accepted (PDict [(''detail'', PStr ''quota'')])"
    by (simp add: no_voice_id_world_def)
  have cv: "create_custom_voice (w_prov no_voice_id_world) (initial_state no_voice_id_world) =
     (Inl SystemExit,
      \<lparr>VOICE_ID = PNone, files = {''voice_sample.mp3''},
       trace = [Call_create_custom_voice, HttpGet IPFS_VOICE_URL,
                HttpPost [S ''https://api.elevenlabs.io/v1/voices/add''],
                Print [S ''Error creating voice: '', V (PDict [(''detail'', PStr ''quota'')])],
                Exit]\<rparr>)"
    using sample_file_left_after_exit by (simp add: init prov)
  have vi: "VOICE_ID (initial_state no_voice_id_world) = PNone"
    by (simp add: initial_state_def)
  have key: "w_api_key no_voice_id_world = Some ''key''"
    by (simp add: no_voice_id_world_def)
  have np: "\<not> provisioned no_voice_id_world"
    by (simp add: provisioned_def cv)
  have run: "program no_voice_id_world [\<lparr>it_listen = hearing ''hello'', it_cmd = quiet_cmd\<rparr>] =
     (Exited,
      \<lparr>VOICE_ID = PNone, files = {''voice_sample.mp3''},
       trace = [Call_create_custom_voice, HttpGet IPFS_VOICE_URL,
                HttpPost [S ''https://api.elevenlabs.io/v1/voices/add''],
                Print [S ''Error creating voice: '', V (PDict [(''detail'', PStr ''quota'')])],
                Exit]\<rparr>)"
    by (simp add: program_def startup_def check_api_key_def provision_def cv vi key
        bnd_def ret_def)
  from voice_id_set_before_synthesis[of no_voice_id_world
      "[\<lparr>it_listen = hearing ''hello'', it_cmd = quiet_cmd\<rparr>]"] np run
  show ?thesis by simp
qed

section \<open>Main execution: an empty utterance is not dispatched\<close>

text \<open>
  Claim C10. In a turn of the loop where \<^verbatim>\<open>listen\<close> returns the empty string, the loop
  goes on to the next turn from the state \<^verbatim>\<open>listen\<close> left: the turn added the entry of
  \<^verbatim>\<open>listen\<close> and messages to the trace, no dispatcher call and no synthesis call. On
  every run of the process, every utterance handed to the dispatcher is non-empty. Called
  with the empty string, \<^verbatim>\<open>process_command\<close> itself returns \<^verbatim>\<open>False\<close> after speaking
  the text of its last branch.
\<close>

theorem empty_utterance_not_dispatched:
  "(fst (listen (it_listen it) s) = Inr [] \<longrightarrow>
      main_loop (it # its) s = main_loop its (snd (listen (it_listen it) s)) \<and>
      (\<exists>evs. trace (snd (listen (it_listen it) s)) = trace s @ Call_listen # evs \<and>
             list_all is_print evs) \<and>
      dispatched (trace (snd (listen (it_listen it) s))) = dispatched (trace s) \<and>
      spoken (trace (snd (listen (it_listen it) s))) = spoken (trace s)) \<and>
   list_all (\<lambda>q. q \<noteq> []) (dispatched (trace (snd (program w its)))) \<and>
   fst (process_command env [] s) = Inr False \<and>
   spoken (trace (snd (process_command env [] s))) = spoken (trace s) @
     [(''I'' @ [CHR 0x27] @ ''m sorry, I don'' @ [CHR 0x27] @ ''t understand that yet.'', VOICE_ID s)]"
proof -
  obtain lr s1 where ls: "listen (it_listen it) s = (lr, s1)"
    by (cases "listen (it_listen it) s")
  have a: "lr = Inr [] \<longrightarrow> main_loop (it # its) s = main_loop its s1"
    using ls by simp
  have b: "\<exists>evs. trace s1 = trace s @ Call_listen # evs \<and> list_all is_print evs"
    using listen_frame[OF ls] by simp
  have c: "dispatched (trace s1) = dispatched (trace s)" "spoken (trace s1) = spoken (trace s)"
    using listen_quiet[OF ls] by simp_all
  have d: "list_all (\<lambda>q. q \<noteq> []) (dispatched (trace (snd (program w its))))"
    using program_safe[of w its] by simp
  have n: "\<not> str_in ''hello'' []" "\<not> str_in ''what is the time'' []"
    "\<not> (str_in ''exit'' [] \<or> str_in ''quit'' [] \<or> str_in ''stop'' [])" by simp_all
  from process_command_other[OF n, of env s] a b c d ls show ?thesis by auto
qed

text \<open>
  The theorem at a turn where the recognition service makes out no speech: the turn
  consists of \<^verbatim>\<open>listen\<close> alone.
\<close>

theorem empty_utterance_not_dispatched_witness:
  "fst (listen deaf state0) = Inr [] \<and>
   main_loop [\<lparr>it_listen = deaf, it_cmd = quiet_cmd\<rparr>] state0 =
     (Running, state0\<lparr>trace := [Call_listen, Print [S ''Listening...''],
        Print [S ''Recognizing...''], Print [S ''Sorry, I could not understand.'']]\<rparr>) \<and>
   dispatched (trace (snd (main_loop [\<lparr>it_listen = deaf, it_cmd = quiet_cmd\<rparr>] state0))) = [] \<and>
   spoken (trace (snd (main_loop [\<lparr>it_listen = deaf, it_cmd = quiet_cmd\<rparr>] state0))) = []"
proof -
  let ?s1 = "state0\<lparr>trace := [Call_listen, Print [S ''Listening...''],
        Print [S ''Recognizing...''], Print [S ''Sorry, I could not understand.'']]\<rparr>"
  have run: "listen deaf state0 = (Inr [], ?s1)"
    by (simp add: listen_def deaf_def state0_def stmt_defs)
  have e: "fst (listen (it_listen \<lparr>it_listen = deaf, it_cmd = quiet_cmd\<rparr>) state0) = Inr []"
    using run by simp
  note all = empty_utterance_not_dispatched[of "\<lparr>it_listen = deaf, it_cmd = quiet_cmd\<rparr>"
      state0 "[]" no_voice_id_world quiet_cmd]
  from all e have "main_loop [\<lparr>it_listen = deaf, it_cmd = quiet_cmd\<rparr>] state0 =
      main_loop [] (snd (listen deaf state0))" by simp
  then show ?thesis using run by (simp add: state0_def)
qed

end
